theory Spec2Isabelle
  imports Complex_Main
begin

section \<open>Values, errors and results\<close>

text \<open>
  The script \<^verbatim>\<open>us_map_led_cylinders.py\<close> drives a host 3D runtime through its Python
  interface. Every function of the script is embedded as a function on an explicit host
  state. A Python exception is a value of \<open>py_error\<close>, returned together with the
  host state reached when it was raised.
\<close>

datatype py_error =
    TypeError | KeyError | IndexError | ZeroDivisionError | AttributeError | RuntimeError

type_synonym vec3 = "real \<times> real \<times> real"
type_synonym rgba = "real \<times> real \<times> real \<times> real"

subsection \<open>Floating-point numbers\<close>

text \<open>
  A Python float is modelled by the real number it stands for, a float literal by the
  number it is written as. An arithmetic operation on floats gives its exact result
  rounded to the nearest double, a tie going to the even significand: \<open>fl\<close> is this
  rounding. A double has a significand of 53 bits, so around \<open>x\<close> the doubles are
  \<open>2 ^ (e - 52)\<close> apart, where \<open>2 ^ e \<le> \<bar>x\<bar> < 2 ^ (e + 1)\<close>, and never less than
  \<open>2 ^ (- 1074)\<close> apart. The reals have no infinity: \<open>overflows\<close> tells the exact
  results that Python rounds to one, and what is stated about a computed value is stated
  where it does not overflow.
\<close>

fun ilog2n :: "nat \<Rightarrow> nat" where
  "ilog2n n = (if n < 2 then 0 else Suc (ilog2n (n div 2)))"

declare ilog2n.simps [simp del]

text \<open>For \<open>x > 0\<close>, the integer \<open>e\<close> with \<open>2 ^ e \<le> x < 2 ^ (e + 1)\<close>.\<close>

definition ilog2 :: "real \<Rightarrow> int" where
  "ilog2 x =
     (if 1 \<le> x then int (ilog2n (nat \<lfloor>x\<rfloor>))
      else - int (Suc (ilog2n (nat \<lceil>1 / x\<rceil> - 1))))"

definition pow2 :: "int \<Rightarrow> real" where
  "pow2 e = (if 0 \<le> e then 2 ^ nat e else 1 / 2 ^ nat (- e))"

definition round_even :: "real \<Rightarrow> int" where
  "round_even x =
     (let f = \<lfloor>x\<rfloor>; r = x - of_int f
      in if r < 1 / 2 then f
         else if 1 / 2 < r then f + 1
         else if even f then f else f + 1)"

definition ulp_exponent :: "real \<Rightarrow> int" where
  "ulp_exponent x = max (ilog2 \<bar>x\<bar> - 52) (- 1074)"

definition fl :: "real \<Rightarrow> real" where
  "fl x =
     (if x = 0 then 0
      else of_int (round_even (x / pow2 (ulp_exponent x))) * pow2 (ulp_exponent x))"


text \<open>The float operations \<^verbatim>\<open>x / y\<close>, \<^verbatim>\<open>x * y\<close> and \<^verbatim>\<open>x - y\<close>.\<close>

definition fdiv :: "real \<Rightarrow> real \<Rightarrow> real" where
  "fdiv x y = fl (x / y)"

definition fmul :: "real \<Rightarrow> real \<Rightarrow> real" where
  "fmul x y = fl (x * y)"

definition fsub :: "real \<Rightarrow> real \<Rightarrow> real" where
  "fsub x y = fl (x - y)"

subsection \<open>Host names\<close>

text \<open>
  The host keeps the names of one kind of datablock unique: a requested name that is
  already in use gets a numeric suffix \<^verbatim>\<open>.001\<close>, \<^verbatim>\<open>.002\<close>, ...; an unused name
  is taken verbatim.
\<close>

fun digits :: "nat \<Rightarrow> string" where
  "digits n =
     (if n < 10 then [''0123456789'' ! n]
      else digits (n div 10) @ [''0123456789'' ! (n mod 10)])"

declare digits.simps [simp del]

definition suffix3 :: "nat \<Rightarrow> string" where
  "suffix3 k = ''.'' @ replicate (3 - length (digits k)) (CHR ''0'') @ digits k"

definition unique_name :: "string list \<Rightarrow> string \<Rightarrow> string" where
  "unique_name used n =
     (if n \<in> set used then
        (case find (\<lambda>c. c \<notin> set used) (map (\<lambda>k. n @ suffix3 k) [1 ..< length used + 2]) of
           Some c \<Rightarrow> c
         | None \<Rightarrow> n)
      else n)"

section \<open>Host state\<close>

subsection \<open>Materials and shading graphs\<close>

datatype node_type =
    ShaderNodeOutputMaterial | ShaderNodeEmission | ShaderNodeBsdfDiffuse
  | ShaderNodeBsdfPrincipled | ShaderNodeTexImage

text \<open>An input socket either holds a default value of its kind or takes a link only.\<close>

datatype socket = ColorSocket rgba | FloatSocket real | LinkSocket

text \<open>The Python values the script assigns to \<^verbatim>\<open>default_value\<close>.\<close>

datatype pyval = Tuple4 rgba | Num real | NoneVal

record node =
  ntype :: node_type
  nname :: string
  inputs :: "socket list"

record link =
  from_node :: string
  from_socket :: nat
  to_node :: string
  to_socket :: nat

record node_tree =
  nodes :: "node list"
  links :: "link list"

record material =
  use_nodes :: bool
  node_tree :: "node_tree option"

subsection \<open>Objects, collections and the session\<close>

datatype shape = Cylinder real real | ImagePlane string | Glyphs string

text \<open>
  Mesh geometry is kept abstract: the shape it was made from, the translations by which
  its whole geometry has been extruded, and whether its geometry is selected for mesh
  editing. A font curve holds the text it displays.
\<close>

record mesh =
  shape :: shape
  extrusions :: "vec3 list"
  geom_selected :: bool
  mmaterials :: "string list"

record font_curve =
  curve_name :: string
  body :: string
  fmaterials :: "string list"

datatype obdata = Mesh mesh | Font font_curve

text \<open>
  \<open>dimensions = None\<close>: the bounding box is the one the host computes from the
  geometry; the script has not assigned it.
\<close>

record object =
  oname :: string
  odata :: obdata
  ocolor :: rgba
  dimensions :: "vec3 option"
  location :: vec3
  selected :: bool

text \<open>An image datablock: the file it was loaded from and its size in pixels.\<close>

record image =
  filepath :: string
  isize :: "nat \<times> nat"

record collection =
  cname :: string
  cobjects :: "nat list"
  cchildren :: "nat list"

text \<open>The functions of the script, as recorded in the session's call log.\<close>

datatype call = InitBlenderEnv | LoadUsMap | NewShader | DrawObject

text \<open>
  Objects and collections live in stores addressed by position; a removed entry leaves
  \<open>None\<close> behind, so a reference held by the script never changes its meaning.
  \<open>scene_objects\<close> and \<open>scene_children\<close> are the members of the scene's root
  collection, which is not an entry of \<open>collections\<close>. \<open>active_collection = None\<close>
  means that the root collection is the active one. \<open>images\<close> lists the image
  datablocks with their names, in the order of their creation. \<open>files\<close> maps each
  existing path to the pixel size of the image stored there. \<open>calls\<close> is not host
  data: it records, in order, which functions of the script have been entered.
\<close>

record host =
  objects :: "object option list"
  active_object :: "nat option"
  scene_objects :: "nat list"
  scene_children :: "nat list"
  collections :: "collection option list"
  active_collection :: "nat option"
  materials :: "string \<rightharpoonup> material"
  images :: "(string \<times> image) list"
  addons :: "string set"
  files :: "string \<rightharpoonup> nat \<times> nat"
  cursor :: vec3
  stdout :: "string list"
  calls :: "call list"

type_synonym 'a result = "(py_error + 'a) \<times> host"

definition bind :: "'a result \<Rightarrow> ('a \<Rightarrow> host \<Rightarrow> 'b result) \<Rightarrow> 'b result" where
  "bind r f = (case r of (Inl e, h) \<Rightarrow> (Inl e, h) | (Inr v, h) \<Rightarrow> f v h)"

section \<open>Host operations on materials\<close>

definition materials_new :: "string \<Rightarrow> host \<Rightarrow> host" where
  "materials_new k h =
     h\<lparr>materials := (materials h)(k \<mapsto> \<lparr>use_nodes = False, node_tree = None\<rparr>)\<rparr>"

definition upd_material :: "string \<Rightarrow> (material \<Rightarrow> material) \<Rightarrow> host \<Rightarrow> host" where
  "upd_material k f h =
     (case materials h k of
        None \<Rightarrow> h
      | Some m \<Rightarrow> h\<lparr>materials := (materials h)(k \<mapsto> f m)\<rparr>)"

definition upd_tree :: "string \<Rightarrow> (node_tree \<Rightarrow> node_tree) \<Rightarrow> host \<Rightarrow> host" where
  "upd_tree k f = upd_material k (\<lambda>m. m\<lparr>node_tree := map_option f (node_tree m)\<rparr>)"

definition default_name :: "node_type \<Rightarrow> string" where
  "default_name t =
     (case t of
        ShaderNodeOutputMaterial \<Rightarrow> ''Material Output''
      | ShaderNodeEmission \<Rightarrow> ''Emission''
      | ShaderNodeBsdfDiffuse \<Rightarrow> ''Diffuse BSDF''
      | ShaderNodeBsdfPrincipled \<Rightarrow> ''Principled BSDF''
      | ShaderNodeTexImage \<Rightarrow> ''Image Texture'')"

definition default_inputs :: "node_type \<Rightarrow> socket list" where
  "default_inputs t =
     (case t of
        ShaderNodeOutputMaterial \<Rightarrow> [LinkSocket, LinkSocket, LinkSocket]
      | ShaderNodeEmission \<Rightarrow> [ColorSocket (1, 1, 1, 1), FloatSocket 1]
      | ShaderNodeBsdfDiffuse \<Rightarrow> [ColorSocket (0.8, 0.8, 0.8, 1), FloatSocket 0, LinkSocket]
      | ShaderNodeBsdfPrincipled \<Rightarrow> [ColorSocket (0.8, 0.8, 0.8, 1)]
      | ShaderNodeTexImage \<Rightarrow> [LinkSocket])"

definition make_node :: "string list \<Rightarrow> node_type \<Rightarrow> node" where
  "make_node used t =
     \<lparr>ntype = t, nname = unique_name used (default_name t), inputs = default_inputs t\<rparr>"

text \<open>
  Switching node-based shading on gives a material that has no graph yet the host's
  default graph: a principled shader wired to a material output.
\<close>

definition default_tree :: node_tree where
  "default_tree =
     \<lparr>nodes = [make_node [] ShaderNodeBsdfPrincipled, make_node [] ShaderNodeOutputMaterial],
      links = [\<lparr>from_node = ''Principled BSDF'', from_socket = 0,
                to_node = ''Material Output'', to_socket = 0\<rparr>]\<rparr>"

definition set_use_nodes :: "string \<Rightarrow> host \<Rightarrow> host" where
  "set_use_nodes k =
     upd_material k (\<lambda>m. m\<lparr>use_nodes := True,
        node_tree := (case node_tree m of None \<Rightarrow> Some default_tree | Some t \<Rightarrow> Some t)\<rparr>)"

text \<open>\<^verbatim>\<open>mat.node_tree\<close>: the graph of the material, if it has one.\<close>

definition tree_of :: "string \<Rightarrow> host \<Rightarrow> node_tree option" where
  "tree_of k h = (case materials h k of None \<Rightarrow> None | Some m \<Rightarrow> node_tree m)"

definition links_clear :: "string \<Rightarrow> host \<Rightarrow> host" where
  "links_clear k = upd_tree k (\<lambda>t. t\<lparr>links := []\<rparr>)"

text \<open>Removing a node removes the links attached to it, so clearing the nodes leaves none.\<close>

definition nodes_clear :: "string \<Rightarrow> host \<Rightarrow> host" where
  "nodes_clear k = upd_tree k (\<lambda>t. t\<lparr>nodes := [], links := []\<rparr>)"

text \<open>\<^verbatim>\<open>nodes.new(type=t)\<close>: appends a node and returns it (by its name in the graph).\<close>

definition nodes_new :: "string \<Rightarrow> node_type \<Rightarrow> host \<Rightarrow> string result" where
  "nodes_new k t h =
     (case tree_of k h of
        None \<Rightarrow> (Inl AttributeError, h)
      | Some tr \<Rightarrow>
          (let n = make_node (map nname (nodes tr)) t
           in (Inr (nname n), upd_tree k (\<lambda>t'. t'\<lparr>nodes := nodes t' @ [n]\<rparr>) h)))"

definition assign :: "socket \<Rightarrow> pyval \<Rightarrow> socket option" where
  "assign s v =
     (case (s, v) of
        (ColorSocket _, Tuple4 c) \<Rightarrow> Some (ColorSocket c)
      | (FloatSocket _, Num x) \<Rightarrow> Some (FloatSocket x)
      | _ \<Rightarrow> None)"

text \<open>
  \<^verbatim>\<open>nodes[name].inputs[i].default_value = v\<close>: the node is looked up by name, the
  socket by position; a value of the wrong kind is refused.
\<close>

definition set_default_value :: "string \<Rightarrow> string \<Rightarrow> nat \<Rightarrow> pyval \<Rightarrow> host \<Rightarrow> unit result" where
  "set_default_value k name i v h =
     (case tree_of k h of
        None \<Rightarrow> (Inl AttributeError, h)
      | Some tr \<Rightarrow>
          (case find (\<lambda>n. nname n = name) (nodes tr) of
             None \<Rightarrow> (Inl KeyError, h)
           | Some n \<Rightarrow>
               if length (inputs n) \<le> i then (Inl IndexError, h)
               else (case assign (inputs n ! i) v of
                       None \<Rightarrow> (Inl TypeError, h)
                     | Some s \<Rightarrow>
                         (Inr (),
                          upd_tree k (\<lambda>t. t\<lparr>nodes :=
                            map (\<lambda>m. if nname m = name then m\<lparr>inputs := (inputs m)[i := s]\<rparr> else m)
                              (nodes t)\<rparr>) h))))"

definition links_new :: "string \<Rightarrow> string \<times> nat \<Rightarrow> string \<times> nat \<Rightarrow> host \<Rightarrow> host" where
  "links_new k src dst =
     upd_tree k (\<lambda>t. t\<lparr>links := links t @
       [\<lparr>from_node = fst src, from_socket = snd src, to_node = fst dst, to_socket = snd dst\<rparr>]\<rparr>)"

section \<open>The Shader-Graph Factory\<close>

text \<open>
  \<^verbatim>\<open>new_material(id)\<close>: get or create the material, switch node-based shading on,
  clear its links and nodes. A material is referred to by its key.
\<close>

definition new_material :: "string \<Rightarrow> host \<Rightarrow> string \<times> host" where
  "new_material k h =
     (let h1 = (case materials h k of None \<Rightarrow> materials_new k h | Some _ \<Rightarrow> h);
          h2 = set_use_nodes k h1;
          h3 = (if tree_of k h2 \<noteq> None then nodes_clear k (links_clear k h2) else h2)
      in (k, h3))"

text \<open>
  \<^verbatim>\<open>new_shader(id, node_type, r, g, b, intensity=None)\<close>. The two tests on
  \<open>node_type\<close> are independent \<^verbatim>\<open>if\<close> statements; \<open>TypeError\<close> is raised after
  both, when neither has produced a shader.
\<close>

definition new_shader ::
  "string \<Rightarrow> string \<Rightarrow> real \<Rightarrow> real \<Rightarrow> real \<Rightarrow> real option \<Rightarrow> host \<Rightarrow> string result" where
  "new_shader k node_type r g b intensity h0 =
     (let (mat, h) = new_material k (h0\<lparr>calls := calls h0 @ [NewShader]\<rparr>) in
      bind (nodes_new mat ShaderNodeOutputMaterial h) (\<lambda>output h.
      bind (if node_type = ''emissive'' then
              bind (nodes_new mat ShaderNodeEmission h) (\<lambda>sh h.
              bind (set_default_value mat ''Emission'' 0 (Tuple4 (r, g, b, 1)) h) (\<lambda>_ h.
              bind (set_default_value mat ''Emission'' 1
                      (case intensity of None \<Rightarrow> NoneVal | Some i \<Rightarrow> Num i) h) (\<lambda>_ h.
              (Inr (Some sh), h))))
            else (Inr None, h)) (\<lambda>shader h.
      bind (if node_type = ''diffuse'' then
              bind (nodes_new mat ShaderNodeBsdfDiffuse h) (\<lambda>sh h.
              bind (set_default_value mat ''Diffuse BSDF'' 0 (Tuple4 (r, g, b, 1)) h) (\<lambda>_ h.
              (Inr (Some sh), h)))
            else (Inr shader, h)) (\<lambda>shader h.
      (case shader of
         None \<Rightarrow> (Inl TypeError, h)
       | Some sh \<Rightarrow> (Inr mat, links_new mat (sh, 0) (output, 0) h))))))"

section \<open>Host operations on objects and collections\<close>

fun live :: "'a option list \<Rightarrow> 'a list" where
  "live [] = []"
| "live (None # xs) = live xs"
| "live (Some x # xs) = x # live xs"

definition get_obj :: "host \<Rightarrow> nat \<Rightarrow> object option" where
  "get_obj h i = (if i < length (objects h) then objects h ! i else None)"

definition get_coll :: "host \<Rightarrow> nat \<Rightarrow> collection option" where
  "get_coll h c = (if c < length (collections h) then collections h ! c else None)"

definition upd_obj :: "nat \<Rightarrow> (object \<Rightarrow> object) \<Rightarrow> host \<Rightarrow> host" where
  "upd_obj i f h = h\<lparr>objects := (objects h)[i := map_option f (get_obj h i)]\<rparr>"

definition upd_coll :: "nat \<Rightarrow> (collection \<Rightarrow> collection) \<Rightarrow> host \<Rightarrow> host" where
  "upd_coll c f h = h\<lparr>collections := (collections h)[c := map_option f (get_coll h c)]\<rparr>"

definition object_names :: "host \<Rightarrow> string list" where
  "object_names h = map oname (live (objects h))"

definition collection_names :: "host \<Rightarrow> string list" where
  "collection_names h = map cname (live (collections h))"

definition is_selected :: "object option \<Rightarrow> bool" where
  "is_selected x = (case x of None \<Rightarrow> False | Some ob \<Rightarrow> selected ob)"

text \<open>\<^verbatim>\<open>bpy.context.selected_objects\<close>, in store order.\<close>

definition selected_indices :: "object option list \<Rightarrow> nat list" where
  "selected_indices os = filter (\<lambda>i. is_selected (os ! i)) [0 ..< length os]"

definition selected_objects :: "host \<Rightarrow> nat list" where
  "selected_objects h = selected_indices (objects h)"

text \<open>\<^verbatim>\<open>bpy.data.objects[name]\<close>: the object that carries the name, if there is one.\<close>

definition find_name :: "object option list \<Rightarrow> string \<Rightarrow> nat option" where
  "find_name os n =
     find (\<lambda>i. case os ! i of None \<Rightarrow> False | Some ob \<Rightarrow> oname ob = n) [0 ..< length os]"

definition objects_by_name :: "host \<Rightarrow> string \<Rightarrow> nat option" where
  "objects_by_name h n = find_name (objects h) n"

text \<open>\<^verbatim>\<open>bpy.data.objects[o.name]\<close> for an object \<open>o\<close> the script holds.\<close>

definition lookup_own_name :: "nat \<Rightarrow> host \<Rightarrow> nat result" where
  "lookup_own_name i h =
     (case get_obj h i of
        None \<Rightarrow> (Inl KeyError, h)
      | Some ob \<Rightarrow>
          (case objects_by_name h (oname ob) of
             None \<Rightarrow> (Inl KeyError, h)
           | Some j \<Rightarrow> (Inr j, h)))"

definition select_set :: "nat \<Rightarrow> bool \<Rightarrow> host \<Rightarrow> host" where
  "select_set i v = upd_obj i (\<lambda>ob. ob\<lparr>selected := v\<rparr>)"

text \<open>\<^verbatim>\<open>bpy.ops.object.select_all(action=...)\<close>; the active object is left as it is.\<close>

definition select_all :: "bool \<Rightarrow> host \<Rightarrow> host" where
  "select_all v h = h\<lparr>objects := map (map_option (\<lambda>ob. ob\<lparr>selected := v\<rparr>)) (objects h)\<rparr>"

text \<open>
  \<^verbatim>\<open>bpy.ops.object.delete()\<close>: every selected object leaves the store and every
  collection; a deleted active object leaves no active object.
\<close>

definition object_delete :: "host \<Rightarrow> host" where
  "object_delete h =
     (let dead = selected_objects h in
      h\<lparr>objects := map (\<lambda>x. if is_selected x then None else x) (objects h),
        active_object :=
          (case active_object h of
             None \<Rightarrow> None
           | Some a \<Rightarrow> if a \<in> set dead then None else Some a),
        scene_objects := filter (\<lambda>i. i \<notin> set dead) (scene_objects h),
        collections :=
          map (map_option (\<lambda>c. c\<lparr>cobjects := filter (\<lambda>i. i \<notin> set dead) (cobjects c)\<rparr>))
            (collections h)\<rparr>)"

text \<open>
  \<^verbatim>\<open>bpy.data.collections.remove(coll)\<close>: the collection leaves the store and the child
  lists of its parents; if it was the active collection, the root collection becomes
  active.
\<close>

definition collections_remove :: "nat \<Rightarrow> host \<Rightarrow> host" where
  "collections_remove c h =
     h\<lparr>collections :=
         (map (map_option (\<lambda>d. d\<lparr>cchildren := filter (\<lambda>i. i \<noteq> c) (cchildren d)\<rparr>))
            (collections h))[c := None],
       scene_children := filter (\<lambda>i. i \<noteq> c) (scene_children h),
       active_collection :=
         (if active_collection h = Some c then None else active_collection h)\<rparr>"

text \<open>
  A new object made by an operator (\<^verbatim>\<open>bpy.ops.mesh.primitive_..._add\<close>, the image
  importer): everything else is deselected, the new object is linked into the active
  collection, selected, and made the active object.
\<close>

definition scene_objects_link :: "nat \<Rightarrow> host \<Rightarrow> host" where
  "scene_objects_link i h = h\<lparr>scene_objects := scene_objects h @ [i]\<rparr>"

definition collection_objects_link :: "nat \<Rightarrow> nat \<Rightarrow> host \<Rightarrow> host" where
  "collection_objects_link c i = upd_coll c (\<lambda>d. d\<lparr>cobjects := cobjects d @ [i]\<rparr>)"

text \<open>
  \<^verbatim>\<open>bpy.context.collection\<close>: the collection that receives new objects; \<open>None\<close>
  stands for the scene's root collection.
\<close>

definition context_collection :: "host \<Rightarrow> nat option" where
  "context_collection h =
     (case active_collection h of
        None \<Rightarrow> None
      | Some c \<Rightarrow> (case get_coll h c of None \<Rightarrow> None | Some _ \<Rightarrow> Some c))"

definition link_active :: "nat \<Rightarrow> host \<Rightarrow> host" where
  "link_active i h =
     (case context_collection h of
        None \<Rightarrow> scene_objects_link i h
      | Some c \<Rightarrow> collection_objects_link c i h)"

definition add_by_operator :: "string \<Rightarrow> obdata \<Rightarrow> vec3 \<Rightarrow> host \<Rightarrow> host" where
  "add_by_operator n d loc h0 =
     (let h = select_all False h0;
          i = length (objects h);
          ob = \<lparr>oname = unique_name (object_names h) n, odata = d, ocolor = (1, 1, 1, 1),
                dimensions = None, location = loc, selected = True\<rparr>
      in link_active i (h\<lparr>objects := objects h @ [Some ob], active_object := Some i\<rparr>))"

definition primitive_cylinder_add :: "real \<Rightarrow> real \<Rightarrow> vec3 \<Rightarrow> host \<Rightarrow> host" where
  "primitive_cylinder_add radius depth loc =
     add_by_operator ''Cylinder''
       (Mesh \<lparr>shape = Cylinder radius depth, extrusions = [], geom_selected = True,
              mmaterials = []\<rparr>) loc"

text \<open>\<^verbatim>\<open>pathlib\<close>: a path is the string it prints as; its name is the last component.\<close>

definition path_name :: "string \<Rightarrow> string" where
  "path_name p = rev (takeWhile (\<lambda>c. c \<noteq> CHR ''/'') (rev p))"

text \<open>
  \<^verbatim>\<open>bpy.path.display_name_from_filepath\<close>: the name of the file without its
  extension. The extension starts at the last dot of the name, unless there are only
  dots before it: then the name has no extension.
\<close>

definition display_name :: "string \<Rightarrow> string" where
  "display_name p =
     (let n = path_name p;
          root = rev (drop 1 (dropWhile (\<lambda>c. c \<noteq> CHR ''.'') (rev n)))
      in if CHR ''.'' \<in> set n \<and> filter (\<lambda>c. c \<noteq> CHR ''.'') root \<noteq> [] then root else n)"

definition image_names :: "host \<Rightarrow> string list" where
  "image_names h = map fst (images h)"

text \<open>\<^verbatim>\<open>bpy.data.images[n]\<close>: the image datablock of that name, if there is one.\<close>

definition images_get :: "host \<Rightarrow> string \<Rightarrow> image option" where
  "images_get h n = map_of (images h) n"

text \<open>
  Loading an image file as the importer does, with \<^verbatim>\<open>check_existing\<close>: a datablock
  that was loaded from the same file is used again as it is. Otherwise a new datablock is
  made; it is named after the file, and the name is made unique like every other, so it
  gets a suffix when another datablock has the file's name already.
\<close>

definition images_load :: "string \<Rightarrow> nat \<times> nat \<Rightarrow> host \<Rightarrow> string \<times> host" where
  "images_load p sz h =
     (case find (\<lambda>e. filepath (snd e) = p) (images h) of
        Some e \<Rightarrow> (fst e, h)
      | None \<Rightarrow>
          (let n = unique_name (image_names h) (path_name p)
           in (n, h\<lparr>images := images h @ [(n, \<lparr>filepath = p, isize = sz\<rparr>)]\<rparr>)))"

text \<open>
  The importer gives the plane a material of its own, named after the file without its
  extension: it takes the material of that name or makes one, switches node-based shading
  on and rebuilds the graph so that it shows the image. Of that graph the model keeps the
  colour path: an image texture feeding a principled shader feeding the output.
\<close>

definition image_tree :: node_tree where
  "image_tree =
     \<lparr>nodes = [make_node [] ShaderNodeOutputMaterial, make_node [] ShaderNodeTexImage,
               make_node [] ShaderNodeBsdfPrincipled],
      links = [\<lparr>from_node = ''Image Texture'', from_socket = 0,
                to_node = ''Principled BSDF'', to_socket = 0\<rparr>,
               \<lparr>from_node = ''Principled BSDF'', from_socket = 0,
                to_node = ''Material Output'', to_socket = 0\<rparr>]\<rparr>"

definition image_material :: "string \<Rightarrow> host \<Rightarrow> string \<times> host" where
  "image_material p h =
     (let k = display_name p
      in (k, h\<lparr>materials := (materials h)(k \<mapsto>
                 \<lparr>use_nodes = True, node_tree = Some image_tree\<rparr>)\<rparr>))"

text \<open>
  \<^verbatim>\<open>bpy.ops.import_image.to_plane(files=[{'name': p}])\<close>: the image file is loaded,
  and a plane showing it is added at the 3D cursor. The plane is named like its material
  and, as every object made by an operator, it is the one selected object and the
  active one afterwards.
\<close>

definition import_image_to_plane :: "string \<Rightarrow> host \<Rightarrow> host" where
  "import_image_to_plane p h0 =
     (case files h0 p of
        None \<Rightarrow> h0
      | Some sz \<Rightarrow>
          (let (img, h) = images_load p sz h0;
               (mat, h) = image_material p h
           in add_by_operator mat
                (Mesh \<lparr>shape = ImagePlane img, extrusions = [], geom_selected = True,
                       mmaterials = [mat]\<rparr>)
                (cursor h) h))"

definition append_material :: "string \<Rightarrow> obdata \<Rightarrow> obdata" where
  "append_material m d =
     (case d of
        Mesh me \<Rightarrow> Mesh (me\<lparr>mmaterials := mmaterials me @ [m]\<rparr>)
      | Font f \<Rightarrow> Font (f\<lparr>fmaterials := fmaterials f @ [m]\<rparr>))"

text \<open>\<^verbatim>\<open>o.name = n\<close>: the host keeps the name unique among the other objects.\<close>

definition rename :: "nat \<Rightarrow> string \<Rightarrow> host \<Rightarrow> host" where
  "rename i n h =
     upd_obj i (\<lambda>ob. ob\<lparr>oname := unique_name (map oname (live ((objects h)[i := None]))) n\<rparr>) h"

text \<open>
  \<^verbatim>\<open>bpy.ops.object.convert(target='MESH')\<close>: every selected object becomes a mesh; a
  font curve becomes the mesh of its glyph outlines. The active object stays active.
\<close>

definition to_mesh :: "obdata \<Rightarrow> obdata" where
  "to_mesh d =
     (case d of
        Mesh me \<Rightarrow> Mesh me
      | Font f \<Rightarrow>
          Mesh \<lparr>shape = Glyphs (body f), extrusions = [], geom_selected = False,
                mmaterials = fmaterials f\<rparr>)"

definition object_convert_MESH :: "host \<Rightarrow> host" where
  "object_convert_MESH h =
     h\<lparr>objects :=
         map (map_option (\<lambda>ob. if selected ob then ob\<lparr>odata := to_mesh (odata ob)\<rparr> else ob))
           (objects h)\<rparr>"

subsection \<open>Mesh editing\<close>

text \<open>
  The host is in object mode whenever a function of the script is entered or left. Edit
  mode exists only between the two \<^verbatim>\<open>mode_set\<close> calls of \<open>draw_object\<close>, so it is a
  state of its own: the host, and the objects being edited. Entering edit mode takes the
  active object, and with it every selected object of the same type.
\<close>

record edit_session =
  base :: host
  editing :: "nat list"

definition is_mesh :: "object \<Rightarrow> bool" where
  "is_mesh ob = (case odata ob of Mesh _ \<Rightarrow> True | Font _ \<Rightarrow> False)"

definition enters_edit :: "nat \<Rightarrow> object \<Rightarrow> nat \<Rightarrow> object option \<Rightarrow> bool" where
  "enters_edit a ao i x =
     (case x of
        None \<Rightarrow> False
      | Some ob \<Rightarrow> (i = a \<or> selected ob) \<and> is_mesh ob = is_mesh ao)"

definition edit_indices :: "nat \<Rightarrow> object \<Rightarrow> object option list \<Rightarrow> nat list" where
  "edit_indices a ao os = filter (\<lambda>i. enters_edit a ao i (os ! i)) [0 ..< length os]"

definition mode_set_EDIT :: "host \<Rightarrow> py_error + edit_session" where
  "mode_set_EDIT h =
     (case active_object h of
        None \<Rightarrow> Inl RuntimeError
      | Some a \<Rightarrow>
          (case get_obj h a of
             None \<Rightarrow> Inl RuntimeError
           | Some ao \<Rightarrow> Inr \<lparr>base = h, editing = edit_indices a ao (objects h)\<rparr>))"

definition mode_set_OBJECT :: "edit_session \<Rightarrow> host" where
  "mode_set_OBJECT es = base es"

text \<open>The mesh operators need a mesh in edit mode; they act on every mesh being edited.\<close>

definition mesh_editing :: "edit_session \<Rightarrow> bool" where
  "mesh_editing es =
     (case active_object (base es) of
        None \<Rightarrow> False
      | Some a \<Rightarrow> (case get_obj (base es) a of None \<Rightarrow> False | Some ao \<Rightarrow> is_mesh ao))"

definition upd_mesh :: "(mesh \<Rightarrow> mesh) \<Rightarrow> object \<Rightarrow> object" where
  "upd_mesh f ob = (case odata ob of Mesh me \<Rightarrow> ob\<lparr>odata := Mesh (f me)\<rparr> | Font _ \<Rightarrow> ob)"

definition upd_editing :: "(mesh \<Rightarrow> mesh) \<Rightarrow> edit_session \<Rightarrow> edit_session" where
  "upd_editing f es = es\<lparr>base := fold (\<lambda>i. upd_obj i (upd_mesh f)) (editing es) (base es)\<rparr>"

definition mesh_select_all_SELECT :: "edit_session \<Rightarrow> py_error + edit_session" where
  "mesh_select_all_SELECT es =
     (if mesh_editing es then Inr (upd_editing (\<lambda>me. me\<lparr>geom_selected := True\<rparr>) es)
      else Inl RuntimeError)"

text \<open>
  \<^verbatim>\<open>bpy.ops.mesh.extrude_region_move(TRANSFORM_OT_translate={"value": v})\<close>: the
  selected geometry of every mesh being edited is extruded and moved by \<open>v\<close>.
\<close>

definition mesh_extrude_region_move :: "vec3 \<Rightarrow> edit_session \<Rightarrow> py_error + edit_session" where
  "mesh_extrude_region_move v es =
     (if mesh_editing es then
        Inr (upd_editing
               (\<lambda>me. if geom_selected me then me\<lparr>extrusions := extrusions me @ [v]\<rparr> else me) es)
      else Inl RuntimeError)"

text \<open>\<^verbatim>\<open>bpy.data.collections.new(name=n)\<close> and \<^verbatim>\<open>children.link\<close>.\<close>

definition collections_new :: "string \<Rightarrow> host \<Rightarrow> nat \<times> host" where
  "collections_new n h =
     (length (collections h),
      h\<lparr>collections := collections h @
          [Some \<lparr>cname = unique_name (collection_names h) n, cobjects = [], cchildren = []\<rparr>]\<rparr>)"

definition scene_children_link :: "nat \<Rightarrow> host \<Rightarrow> host" where
  "scene_children_link c h = h\<lparr>scene_children := scene_children h @ [c]\<rparr>"

section \<open>Scene Reset\<close>

text \<open>\<^verbatim>\<open>init_blender_env()\<close>.\<close>

definition user_collections :: "host \<Rightarrow> nat list" where
  "user_collections h =
     filter (\<lambda>c. case collections h ! c of
                   None \<Rightarrow> False
                 | Some d \<Rightarrow> take 5 (cname d) \<noteq> ''Scene'')
       [0 ..< length (collections h)]"

definition init_blender_env :: "host \<Rightarrow> host" where
  "init_blender_env h0 =
     (let h = h0\<lparr>calls := calls h0 @ [InitBlenderEnv]\<rparr>;
          h = select_all True h;
          h = object_delete h
      in fold collections_remove (user_collections h) h)"

section \<open>Base Surface Loader\<close>

definition addon_name :: string where
  "addon_name = ''io_import_images_as_planes''"

text \<open>
  \<^verbatim>\<open>load_us_map(max_size_dim, image_path)\<close>. The image is looked up by the name of
  the file, not taken from the plane; the two sizes are integers, and their quotient and
  the product with it are float operations.
\<close>

definition load_us_map :: "real \<Rightarrow> string \<Rightarrow> host \<Rightarrow> unit result" where
  "load_us_map max_size_dim image_path h0 =
     (let h = h0\<lparr>calls := calls h0 @ [LoadUsMap]\<rparr>;
          loaded_state = (addon_name \<in> addons h);
          h = (if \<not> loaded_state then h\<lparr>addons := insert addon_name (addons h)\<rparr> else h)
      in
      if files h image_path \<noteq> None then
        (let h = import_image_to_plane image_path h in
         case selected_objects h of
           [] \<Rightarrow> (Inl IndexError, h)
         | plane # _ \<Rightarrow>
             (case images_get h (path_name image_path) of
                None \<Rightarrow> (Inl KeyError, h)
              | Some img \<Rightarrow>
                  let width = fst (isize img);
                      len = snd (isize img)
                  in
                  if width = 0 then (Inl ZeroDivisionError, h)
                  else
                    (let length_ratio = fdiv (real len) (real width);
                         plane_width = max_size_dim;
                         plane_length = fmul plane_width length_ratio;
                         h = upd_obj plane
                               (\<lambda>ob. ob\<lparr>dimensions := Some (plane_width, plane_length, 0)\<rparr>) h;
                         h = upd_obj plane (\<lambda>ob. ob\<lparr>location := (0, 0, 0)\<rparr>) h
                     in (Inr (), h))))
      else (Inr (), h\<lparr>stdout := stdout h @ [''File not found: '' @ image_path]\<rparr>))"

section \<open>Label Geometry Builder\<close>

text \<open>
  \<^verbatim>\<open>new_text(baseid, text)\<close>: a font curve holding the text, an object wrapping it,
  linked into the scene's root collection. The object is neither selected nor active.
\<close>

definition new_text :: "string \<Rightarrow> string \<Rightarrow> host \<Rightarrow> nat \<times> host" where
  "new_text baseid text h =
     (let font_curve = \<lparr>curve_name = baseid @ ''_curve'', body = text, fmaterials = []\<rparr>;
          font_obj = length (objects h);
          h = h\<lparr>objects := objects h @
                [Some \<lparr>oname = unique_name (object_names h) (baseid @ ''_font''),
                       odata = Font font_curve, ocolor = (1, 1, 1, 1), dimensions = None,
                       location = (0, 0, 0), selected = False\<rparr>]\<rparr>;
          h = scene_objects_link font_obj h
      in (font_obj, h))"

section \<open>Marker Composer\<close>

text \<open>
  \<^verbatim>\<open>'..._{}_{}_{}'.format(x, y, z)\<close>: how Python prints a float is not part of the
  script; it is the parameter \<open>fmt\<close>.
\<close>

definition format3 :: "(real \<Rightarrow> string) \<Rightarrow> string \<Rightarrow> real \<Rightarrow> real \<Rightarrow> real \<Rightarrow> string" where
  "format3 fmt prefix x y z = prefix @ fmt x @ ''_'' @ fmt y @ ''_'' @ fmt z"

text \<open>\<^verbatim>\<open>draw_object(x, y, z, mat, label, texmat)\<close>.\<close>

definition draw_object ::
  "(real \<Rightarrow> string) \<Rightarrow> real \<Rightarrow> real \<Rightarrow> real \<Rightarrow> string \<Rightarrow> string \<Rightarrow> string \<Rightarrow> host \<Rightarrow> unit result" where
  "draw_object fmt x y z mat label texmat h0 =
     (let h = h0\<lparr>calls := calls h0 @ [DrawObject]\<rparr>;
          h = primitive_cylinder_add 0.5 0.5 (x, y, z) h
      in
      case active_object h of
        None \<Rightarrow> (Inl AttributeError, h)
      | Some led \<Rightarrow>
     (let h = upd_obj led (\<lambda>ob. ob\<lparr>odata := append_material mat (odata ob)\<rparr>) h;
          h = rename led (format3 fmt ''LED_'' x y z) h;
          text_str = format3 fmt ''Text_'' x y z;
          (text, h) = new_text text_str label h;
          h = upd_obj text (\<lambda>ob. ob\<lparr>ocolor := (0, 0, 0, 1)\<rparr>) h;
          h = upd_obj text (\<lambda>ob. ob\<lparr>odata := append_material texmat (odata ob)\<rparr>) h
      in
      bind (lookup_own_name text h) (\<lambda>t h.
     (let h = select_set t True h;
          h = object_convert_MESH h
      in
      case active_object h of
        None \<Rightarrow> (Inl AttributeError, h)
      | Some mesh_obj \<Rightarrow>
     (let h = select_set mesh_obj True h in
      case mode_set_EDIT h of
        Inl e \<Rightarrow> (Inl e, h)
      | Inr es \<Rightarrow>
     (case mesh_select_all_SELECT es of
        Inl e \<Rightarrow> (Inl e, base es)
      | Inr es \<Rightarrow>
     (case mesh_extrude_region_move (0, 0, 0.3) es of
        Inl e \<Rightarrow> (Inl e, base es)
      | Inr es \<Rightarrow>
     (let h = mode_set_OBJECT es;
          h = select_all False h
      in
      bind (lookup_own_name led h) (\<lambda>led_obj h.
      bind (lookup_own_name text h) (\<lambda>font_obj h.
     (let h = select_set led_obj True h;
          h = select_set font_obj True h;
          h = upd_obj font_obj (\<lambda>ob. ob\<lparr>dimensions := Some (0.5, 0.5, 0.3)\<rparr>) h;
          h = upd_obj font_obj
                (\<lambda>ob. ob\<lparr>location := (fsub x 0.25, fsub y 0.25, 0.3)\<rparr>) h;
          (new_collection, h) = collections_new (label @ ''_led'') h;
          h = scene_children_link new_collection h;
          h = collection_objects_link new_collection led_obj h;
          h = collection_objects_link new_collection font_obj h;
          h = select_all False h
      in (Inr (), h))))))))))))"

section \<open>Run Driver\<close>

text \<open>The dataset, in the order the dictionary literal lists it.\<close>

definition states_dict :: "(string \<times> vec3) list" where
  "states_dict =
    [(''AL'', (14.0, -1.0, 0.0)), (''AK'', (-3.0, -25.0, 0.0)), (''AZ'', (-25.5, 1.0, 0.0)),
     (''AR'', (5.5, 1.0, 0.0)), (''CA'', (-37.5, 13.0, 0.0)), (''CO'', (-13.0, 11.0, 0.0)),
     (''CT'', (32.0, 18.5, 0.0)), (''DE'', (29.5, 13.0, 0.0)), (''FL'', (19.0, -6.0, 0.0)),
     (''GA'', (18.0, 0.0, 0.0)), (''HI'', (-35.0, -25.0, 0.0)), (''ID'', (-28.0, 21.0, 0.0)),
     (''IL'', (9.0, 11.0, 0.0)), (''IN'', (14.0, 11.5, 0.0)), (''IA'', (3.0, 14.0, 0.0)),
     (''KS'', (0.0, 9.0, 0.0)), (''KY'', (16.0, 9.0, 0.0)), (''LA'', (8.0, -7.0, 0.0)),
     (''ME'', (35.0, 24.0, 0.0)), (''MD'', (28.0, 13.0, 0.0)), (''MA'', (34.0, 20.5, 0.0)),
     (''MI'', (16.0, 17.0, 0.0)), (''MN'', (4.0, 21.0, 0.0)), (''MS'', (9.0, -3.0, 0.0)),
     (''MO'', (5.5, 8.5, 0.0)), (''MT'', (-21.0, 25.5, 0.0)), (''NE'', (-1.0, 16.0, 0.0)),
     (''NV'', (-35.0, 14.0, 0.0)), (''NH'', (33.0, 22.0, 0.0)), (''NJ'', (30.0, 15.0, 0.0)),
     (''NM'', (-15.5, 3.5, 0.0)), (''NY'', (30.0, 20.0, 0.0)), (''NC'', (26.0, 5.5, 0.0)),
     (''ND'', (-6.5, 24.0, 0.0)), (''OH'', (18.5, 12.0, 0.0)), (''OK'', (-2.5, 2.5, 0.0)),
     (''OR'', (-36.0, 25.5, 0.0)), (''PA'', (23.0, 14.0, 0.0)), (''RI'', (34.0, 19.0, 0.0)),
     (''SC'', (23.0, 2.0, 0.0)), (''SD'', (-10.0, 19.0, 0.0)), (''TN'', (14.0, 4.5, 0.0)),
     (''TX'', (-3.0, -7.5, 0.0)), (''UT'', (-23.0, 14.0, 0.0)), (''VT'', (31.0, 23.0, 0.0)),
     (''VA'', (27.0, 9.0, 0.0)), (''WA'', (-34.0, 30.0, 0.0)), (''WV'', (21.0, 9.5, 0.0)),
     (''WI'', (9.0, 17.0, 0.0)), (''WY'', (-13.0, 14.0, 0.0))]"

text \<open>
  The body of the loop of \<^verbatim>\<open>__main__\<close>: with \<^verbatim>\<open>r = g = b = 255\<close> the two shader
  keys are fixed strings.
\<close>

definition loop_body :: "(real \<Rightarrow> string) \<Rightarrow> string \<times> vec3 \<Rightarrow> host \<Rightarrow> unit result" where
  "loop_body fmt entry h =
     (case entry of (state, (x, y, z)) \<Rightarrow>
        bind (new_shader ''LEDShader_255_255_255'' ''emissive'' 255 255 255 (Some 1) h) (\<lambda>mat h.
        bind (new_shader ''TextShader_0_0_0'' ''diffuse'' 0 0 0 None h) (\<lambda>texmat h.
        draw_object fmt x y z mat state texmat h)))"

fun for_each :: "('a \<Rightarrow> host \<Rightarrow> unit result) \<Rightarrow> 'a list \<Rightarrow> host \<Rightarrow> unit result" where
  "for_each f [] h = (Inr (), h)"
| "for_each f (e # es) h =
     (case f e h of
        (Inl err, h') \<Rightarrow> (Inl err, h')
      | (Inr _, h') \<Rightarrow> for_each f es h')"

text \<open>
  The body of \<^verbatim>\<open>__main__\<close>, for a target size and an image path: the loader once,
  then the loop over the dataset.
\<close>

definition run_driver :: "real \<Rightarrow> string \<Rightarrow> (real \<Rightarrow> string) \<Rightarrow> host \<Rightarrow> unit result" where
  "run_driver max_size_dim path fmt h =
     bind (load_us_map max_size_dim path h) (\<lambda>_ h. for_each (loop_body fmt) states_dict h)"

text \<open>
  \<^verbatim>\<open>filename = ''\<close>, so \<^verbatim>\<open>pathlib.Path('res/png/' + filename)\<close> prints as
  \<^verbatim>\<open>res/png\<close>; the target size is 90.
\<close>

definition image_path :: string where
  "image_path = ''res/png''"

definition main :: "(real \<Rightarrow> string) \<Rightarrow> host \<Rightarrow> unit result" where
  "main fmt h = run_driver 90 image_path fmt h"

section \<open>Notions used in the statements\<close>

text \<open>A graph node is the material output, or else a shader.\<close>

definition is_output :: "node \<Rightarrow> bool" where
  "is_output n = (ntype n = ShaderNodeOutputMaterial)"

definition is_shader :: "node \<Rightarrow> bool" where
  "is_shader n = (ntype n \<noteq> ShaderNodeOutputMaterial)"

definition output_node :: node where
  "output_node =
     \<lparr>ntype = ShaderNodeOutputMaterial, nname = ''Material Output'',
      inputs = [LinkSocket, LinkSocket, LinkSocket]\<rparr>"

text \<open>
  The host after a call of \<open>new_shader\<close> that left the graph \<open>ns\<close>, \<open>ls\<close> under
  the key: the call is logged and the material under the key is replaced; nothing else
  changes.
\<close>

definition shaded :: "string \<Rightarrow> node list \<Rightarrow> link list \<Rightarrow> host \<Rightarrow> host" where
  "shaded k ns ls h =
     h\<lparr>calls := calls h @ [NewShader],
       materials := (materials h)(k \<mapsto>
         \<lparr>use_nodes = True, node_tree = Some \<lparr>nodes = ns, links = ls\<rparr>\<rparr>)\<rparr>"

text \<open>
  One request to the factory: kind, colour, intensity. It is valid when the kind is
  one of the two the factory knows, with an intensity when emissive.
\<close>

type_synonym request = "string \<times> real \<times> real \<times> real \<times> real option"

definition valid_request :: "request \<Rightarrow> bool" where
  "valid_request q =
     (case q of (kind, r, g, b, i) \<Rightarrow> kind = ''emissive'' \<and> i \<noteq> None \<or> kind = ''diffuse'')"

definition request :: "string \<Rightarrow> request \<Rightarrow> host \<Rightarrow> host" where
  "request k q h = (case q of (kind, r, g, b, i) \<Rightarrow> snd (new_shader k kind r g b i h))"

text \<open>A session with an empty scene, nothing loaded and no file on disk.\<close>

definition empty_session :: host where
  "empty_session =
     \<lparr>objects = [], active_object = None, scene_objects = [], scene_children = [],
      collections = [], active_collection = None, materials = Map.empty,
      images = [], addons = {}, files = Map.empty, cursor = (0, 0, 0),
      stdout = [], calls = []\<rparr>"

text \<open>The host after the loader was called with a path that does not exist.\<close>

definition missing :: "string \<Rightarrow> host \<Rightarrow> host" where
  "missing p h =
     h\<lparr>calls := calls h @ [LoadUsMap],
       addons := insert addon_name (addons h),
       stdout := stdout h @ [''File not found: '' @ p]\<rparr>"

definition deselect :: "object option \<Rightarrow> object option" where
  "deselect = map_option (\<lambda>ob. ob\<lparr>selected := False\<rparr>)"




text \<open>A session that has an image of 2000 by 1000 pixels at the path of the script.\<close>

definition session_with_map :: host where
  "session_with_map = empty_session\<lparr>files := [image_path \<mapsto> (2000, 1000)]\<rparr>"



text \<open>
  The marker, the label and the group that one call of \<open>draw_object\<close> makes in the
  host \<open>h\<close>, and the host after that call. The two new objects take the next two
  places of the object store, the group the next place of the collection store.
\<close>

definition marker_name :: "(real \<Rightarrow> string) \<Rightarrow> real \<Rightarrow> real \<Rightarrow> real \<Rightarrow> host \<Rightarrow> string" where
  "marker_name fmt x y z h = unique_name (object_names h) (format3 fmt ''LED_'' x y z)"

definition label_name :: "(real \<Rightarrow> string) \<Rightarrow> real \<Rightarrow> real \<Rightarrow> real \<Rightarrow> host \<Rightarrow> string" where
  "label_name fmt x y z h =
     unique_name (object_names h @ [marker_name fmt x y z h])
       (format3 fmt ''Text_'' x y z @ ''_font'')"

definition marker_object ::
  "(real \<Rightarrow> string) \<Rightarrow> real \<Rightarrow> real \<Rightarrow> real \<Rightarrow> string \<Rightarrow> host \<Rightarrow> object" where
  "marker_object fmt x y z mat h =
     \<lparr>oname = marker_name fmt x y z h,
      odata = Mesh \<lparr>shape = Cylinder 0.5 0.5, extrusions = [(0, 0, 0.3)],
                    geom_selected = True, mmaterials = [mat]\<rparr>,
      ocolor = (1, 1, 1, 1),
      dimensions = None,
      location = (x, y, z),
      selected = False\<rparr>"

definition label_object ::
  "(real \<Rightarrow> string) \<Rightarrow> real \<Rightarrow> real \<Rightarrow> real \<Rightarrow> string \<Rightarrow> string \<Rightarrow> host \<Rightarrow> object" where
  "label_object fmt x y z label texmat h =
     \<lparr>oname = label_name fmt x y z h,
      odata = Mesh \<lparr>shape = Glyphs label, extrusions = [(0, 0, 0.3)],
                    geom_selected = True, mmaterials = [texmat]\<rparr>,
      ocolor = (0, 0, 0, 1),
      dimensions = Some (0.5, 0.5, 0.3),
      location = (fsub x 0.25, fsub y 0.25, 0.3),
      selected = False\<rparr>"

definition group :: "string \<Rightarrow> host \<Rightarrow> collection" where
  "group label h =
     \<lparr>cname = unique_name (collection_names h) (label @ ''_led''),
      cobjects = [length (objects h), Suc (length (objects h))],
      cchildren = []\<rparr>"

definition drawn ::
  "(real \<Rightarrow> string) \<Rightarrow> real \<Rightarrow> real \<Rightarrow> real \<Rightarrow> string \<Rightarrow> string \<Rightarrow> string \<Rightarrow> host \<Rightarrow> host" where
  "drawn fmt x y z mat label texmat h =
     (let g = link_active (length (objects h)) h in
      g\<lparr>calls := calls h @ [DrawObject],
        objects := map deselect (objects h) @
          [Some (marker_object fmt x y z mat h), Some (label_object fmt x y z label texmat h)],
        active_object := Some (length (objects h)),
        scene_objects := scene_objects g @ [Suc (length (objects h))],
        scene_children := scene_children h @ [length (collections h)],
        collections := collections g @ [Some (group label h)]\<rparr>)"

text \<open>
  How Python prints the coordinates of the dataset: they are multiples of 0.5 of small
  magnitude, printed with one digit after the point. On other numbers this is not
  Python's output; no statement below depends on the formatter.
\<close>

definition py_str :: "real \<Rightarrow> string" where
  "py_str x =
     (if x < 0 then ''-'' else []) @ digits (nat \<lfloor>\<bar>x\<bar>\<rfloor>) @ ''.'' @
     (if \<bar>x\<bar> = of_int \<lfloor>\<bar>x\<bar>\<rfloor> then ''0'' else ''5'')"

text \<open>
  A session as the host starts it up: one collection, linked under the root collection
  and active.
\<close>

definition startup_session :: host where
  "startup_session =
     empty_session
       \<lparr>collections := [Some \<lparr>cname = ''Collection'', cobjects = [], cchildren = []\<rparr>],
        scene_children := [0],
        active_collection := Some 0\<rparr>"


section \<open>Auxiliary notions of the proofs\<close>

text \<open>The number a string of decimal digits stands for.\<close>

definition digit_val :: "char \<Rightarrow> nat" where
  "digit_val c =
     (case find (\<lambda>d. ''0123456789'' ! d = c) [0 ..< 10] of Some d \<Rightarrow> d | None \<Rightarrow> 0)"

definition dval :: "string \<Rightarrow> nat" where
  "dval s = foldl (\<lambda>a c. 10 * a + digit_val c) 0 s"

text \<open>
  The hosts that \<open>draw_object\<close> passes through: the host it started from with the
  call logged, the new cylinder linked and active, and with the given object store, the
  given additions to the root collection, to the collection store and to the children
  of the root collection.
\<close>

definition staged ::
  "host \<Rightarrow> object option list \<Rightarrow> nat list \<Rightarrow> collection option list \<Rightarrow> nat list \<Rightarrow> host" where
  "staged h objs r ncs kids =
     (let g = link_active (length (objects h)) h in
      g\<lparr>calls := calls h @ [DrawObject],
        objects := objs,
        active_object := Some (length (objects h)),
        scene_objects := scene_objects g @ r,
        scene_children := scene_children h @ kids,
        collections := collections g @ ncs\<rparr>)"



section \<open>Basic facts\<close>

lemma bind_Inr [simp]: "bind (Inr v, h) f = f v h"
  by (simp add: bind_def)

lemma bind_Inl [simp]: "bind (Inl e, h) f = (Inl e, h)"
  by (simp add: bind_def)

lemma unique_name_verbatim: "n \<notin> set used \<Longrightarrow> unique_name used n = n"
  by (simp add: unique_name_def)

lemma material_all_upd [simp]:
  "(m::material)\<lparr>use_nodes := a, node_tree := b\<rparr> = \<lparr>use_nodes = a, node_tree = b\<rparr>"
  by (cases m) simp

lemma node_tree_all_upd [simp]:
  "(t::node_tree)\<lparr>nodes := a, links := b\<rparr> = \<lparr>nodes = a, links = b\<rparr>"
  by (cases t) simp

section \<open>Rounding\<close>





lemma pow2_nonneg [simp]: "0 \<le> pow2 e"
  by (simp add: pow2_def)

lemma pow2_neq0 [simp]: "pow2 e \<noteq> 0"
  by (simp add: pow2_def)















section \<open>The Shader-Graph Factory: what a call leaves behind\<close>

lemma new_material_eq:
  "new_material k h =
     (k, h\<lparr>materials := (materials h)(k \<mapsto>
            \<lparr>use_nodes = True, node_tree = Some \<lparr>nodes = [], links = []\<rparr>\<rparr>)\<rparr>)"
  by (simp add: new_material_def Let_def materials_new_def set_use_nodes_def nodes_clear_def
      links_clear_def tree_of_def upd_tree_def upd_material_def split: option.splits)

lemmas shader_defs =
  new_shader_def new_material_eq nodes_new_def set_default_value_def make_node_def
  default_name_def default_inputs_def assign_def links_new_def tree_of_def upd_tree_def
  upd_material_def shaded_def output_node_def unique_name_verbatim

lemma new_shader_emissive:
  "new_shader k ''emissive'' r g b (Some i) h =
     (Inr k, shaded k
        [output_node,
         \<lparr>ntype = ShaderNodeEmission, nname = ''Emission'',
          inputs = [ColorSocket (r, g, b, 1), FloatSocket i]\<rparr>]
        [\<lparr>from_node = ''Emission'', from_socket = 0,
          to_node = ''Material Output'', to_socket = 0\<rparr>] h)"
  by (simp add: shader_defs)

lemma new_shader_diffuse:
  "new_shader k ''diffuse'' r g b i h =
     (Inr k, shaded k
        [output_node,
         \<lparr>ntype = ShaderNodeBsdfDiffuse, nname = ''Diffuse BSDF'',
          inputs = [ColorSocket (r, g, b, 1), FloatSocket 0, LinkSocket]\<rparr>]
        [\<lparr>from_node = ''Diffuse BSDF'', from_socket = 0,
          to_node = ''Material Output'', to_socket = 0\<rparr>] h)"
  by (simp add: shader_defs)

lemma new_shader_unsupported:
  "node_type \<noteq> ''emissive'' \<Longrightarrow> node_type \<noteq> ''diffuse'' \<Longrightarrow>
   new_shader k node_type r g b i h = (Inl TypeError, shaded k [output_node] [] h)"
  by (simp add: shader_defs)

lemma tree_of_shaded [simp]:
  "tree_of k (shaded k ns ls h) = Some \<lparr>nodes = ns, links = ls\<rparr>"
  by (simp add: tree_of_def shaded_def)

lemma request_shape:
  assumes "valid_request q"
  shows "\<exists>tr. tree_of k (request k q h) = Some tr
           \<and> length (filter is_output (nodes tr)) = 1
           \<and> length (filter is_shader (nodes tr)) = 1
           \<and> length (links tr) = 1"
proof -
  obtain kind r g b i where q: "q = (kind, r, g, b, i)" by (cases q) auto
  show ?thesis
  proof (cases "kind = ''emissive''")
    case True
    with assms q obtain s where "i = Some s" by (auto simp: valid_request_def)
    with True q show ?thesis
      by (simp add: request_def new_shader_emissive is_output_def is_shader_def output_node_def)
  next
    case False
    with assms q have "kind = ''diffuse''" by (auto simp: valid_request_def)
    with q show ?thesis
      by (simp add: request_def new_shader_diffuse is_output_def is_shader_def output_node_def)
  qed
qed

text \<open>
  C7. For valid requests, any number (at least one) of calls of the factory with the same
  key leaves the graph under that key with exactly one output node and exactly one
  shader node (and one link between them): every call rebuilds the graph.
\<close>

theorem factory_rebuilds_graph:
  assumes "qs \<noteq> []" and "list_all valid_request qs"
  shows "\<exists>tr. tree_of k (fold (request k) qs h) = Some tr
           \<and> length (filter is_output (nodes tr)) = 1
           \<and> length (filter is_shader (nodes tr)) = 1
           \<and> length (links tr) = 1"
proof -
  from assms(1) obtain ps q where qs: "qs = ps @ [q]"
    by (cases qs rule: rev_cases) auto
  with assms(2) have "valid_request q" by simp
  then show ?thesis
    using request_shape[of q k "fold (request k) ps h"] by (simp add: qs)
qed

theorem factory_rebuilds_graph_witness:
  "\<exists>tr. tree_of ''LEDShader_255_255_255''
          (fold (request ''LEDShader_255_255_255'')
             [(''emissive'', 255, 255, 255, Some 1), (''diffuse'', 0, 0, 0, None),
              (''emissive'', 1, 2, 3, Some 4)] empty_session) = Some tr
        \<and> length (filter is_output (nodes tr)) = 1
        \<and> length (filter is_shader (nodes tr)) = 1
        \<and> length (links tr) = 1"
  by (rule factory_rebuilds_graph) (simp_all add: valid_request_def)

text \<open>
  C2, as the code has it. For a kind other than \<^verbatim>\<open>emissive\<close> and \<^verbatim>\<open>diffuse\<close> the
  factory raises \<open>TypeError\<close>; when it does, the material under the key exists, with
  node-based shading on and a graph that holds the output node alone, without a shader
  and without a link (a graph that was there before is gone). Nothing else of the host
  has changed.
\<close>

theorem unsupported_kind_raises:
  assumes "kind \<noteq> ''emissive''" and "kind \<noteq> ''diffuse''"
  shows "new_shader k kind r g b i h = (Inl TypeError, shaded k [output_node] [] h)"
  using assms by (rule new_shader_unsupported)

theorem unsupported_kind_raises_witness:
  "new_shader ''M'' ''specular'' 1 1 1 None empty_session
     = (Inl TypeError, shaded ''M'' [output_node] [] empty_session)"
  by (rule unsupported_kind_raises) simp_all

text \<open>
  C2 as stated fails: after the aborted call with kind \<^verbatim>\<open>specular\<close> on a session
  without materials, a material is stored under the key, and its graph is the
  half-built one.
\<close>

theorem unsupported_kind_counterexample:
  "materials empty_session ''M'' = None \<and>
   materials (snd (new_shader ''M'' ''specular'' 1 1 1 None empty_session)) ''M''
     = Some \<lparr>use_nodes = True, node_tree = Some \<lparr>nodes = [output_node], links = []\<rparr>\<rparr>"
  by (simp add: new_shader_unsupported shaded_def empty_session_def)


section \<open>Names, lookups and selections\<close>

lemma live_append [simp]: "live (xs @ ys) = live xs @ live ys"
  by (induction xs rule: live.induct) simp_all

lemma nth_live: "i < length os \<Longrightarrow> os ! i = Some ob \<Longrightarrow> ob \<in> set (live os)"
proof (induction os arbitrary: i rule: live.induct)
  case 1 then show ?case by simp
next
  case (2 xs)
  show ?case
  proof (cases i)
    case 0 with 2 show ?thesis by simp
  next
    case (Suc j) with 2 show ?thesis by simp
  qed
next
  case (3 x xs)
  show ?case
  proof (cases i)
    case 0 with 3 show ?thesis by simp
  next
    case (Suc j) with 3 show ?thesis by simp
  qed
qed

lemma find_app: "find P (xs @ ys) = (case find P xs of None \<Rightarrow> find P ys | Some x \<Rightarrow> Some x)"
  by (induction xs) simp_all

lemma find_upt_first:
  assumes "j < m" and "P j" and "\<And>i. i < j \<Longrightarrow> \<not> P i"
  shows "find P [0 ..< m] = Some j"
proof -
  have "[0 ..< m] = [0 ..< j] @ j # [Suc j ..< m]"
    using assms(1) by (metis less_imp_le_nat upt_add_eq_append upt_conv_Cons le0 le_add_diff_inverse)
  moreover have "find P [0 ..< j] = None"
    using assms(3) by (simp add: find_None_iff)
  ultimately show ?thesis using assms(2) by (simp add: find_app)
qed

lemma digit_val_nth: "d < 10 \<Longrightarrow> digit_val (''0123456789'' ! d) = d"
proof -
  assume "d < 10"
  then have "d \<in> {0,1,2,3,4,5,6,7,8,9}" by auto
  moreover have "[0 ..< 10] = [0,1,2,3,4,5,6,7,8,9::nat]" by code_simp
  ultimately show ?thesis
    by (auto simp: digit_val_def)
qed

lemma dval_snoc: "dval (s @ [c]) = 10 * dval s + digit_val c"
  by (simp add: dval_def)

lemma dval_digits: "dval (digits n) = n"
proof (induction n rule: digits.induct)
  case (1 n)
  show ?case
  proof (cases "n < 10")
    case True
    then show ?thesis
      using digit_val_nth[of n] by (subst digits.simps) (simp add: dval_def)
  next
    case False
    then show ?thesis
      using 1 digit_val_nth[of "n mod 10"]
      by (subst digits.simps) (simp add: dval_snoc)
  qed
qed

lemma dval_zeros: "dval (replicate m (CHR ''0'') @ s) = dval s"
proof -
  have z: "digit_val (CHR ''0'') = 0" using digit_val_nth[of 0] by simp
  have "foldl (\<lambda>a c. 10 * a + digit_val c) 0 (replicate m (CHR ''0'') @ s)
        = foldl (\<lambda>a c. 10 * a + digit_val c) 0 s"
    by (induction m) (simp_all add: z)
  then show ?thesis by (simp add: dval_def)
qed

lemma suffix3_inj: "suffix3 j = suffix3 k \<Longrightarrow> j = k"
proof -
  assume "suffix3 j = suffix3 k"
  then have "dval (tl (suffix3 j)) = dval (tl (suffix3 k))" by simp
  then show ?thesis by (simp add: suffix3_def dval_zeros dval_digits)
qed

lemma unique_name_fresh: "unique_name used n \<notin> set used"
proof (cases "n \<in> set used")
  case False
  then show ?thesis by (simp add: unique_name_def)
next
  case True
  define cands where "cands = map (\<lambda>k. n @ suffix3 k) [1 ..< length used + 2]"
  have inj: "inj_on (\<lambda>k. n @ suffix3 k) (set [1 ..< length used + 2])"
    by (auto simp: inj_on_def dest: suffix3_inj)
  have "distinct cands" unfolding cands_def using inj by (subst distinct_map) simp
  then have "card (set cands) = length cands" by (rule distinct_card)
  moreover have "length cands = length used + 1" by (simp add: cands_def del: upt_Suc)
  moreover have "card (set used) \<le> length used" by (rule card_length)
  ultimately have "card (set used) < card (set cands)" by linarith
  then have "\<not> set cands \<subseteq> set used"
    using card_mono[of "set used" "set cands"] by auto
  then obtain c where c: "c \<in> set cands" "c \<notin> set used" by blast
  then have "find (\<lambda>c. c \<notin> set used) cands \<noteq> None"
    by (auto simp: find_None_iff)
  then obtain c' where f: "find (\<lambda>c. c \<notin> set used) cands = Some c'" by auto
  then have "c' \<notin> set used" by (auto simp: find_Some_iff)
  with True f show ?thesis by (simp add: unique_name_def cands_def)
qed


lemma live_map_selected [simp]:
  "map oname (live (map (map_option (selected_update f)) xs)) = map oname (live xs)"
  by (induction xs rule: live.induct) simp_all

lemma find_name_at:
  assumes "n = oname ob" and "n \<notin> set (map oname (live os))"
  shows "find_name (os @ Some ob # rest) n = Some (length os)"
  unfolding find_name_def
proof (rule find_upt_first)
  show "length os < length (os @ Some ob # rest)" by simp
  show "case (os @ Some ob # rest) ! length os of None \<Rightarrow> False | Some ob' \<Rightarrow> oname ob' = n"
    using assms(1) by simp
next
  fix i assume i: "i < length os"
  show "\<not> (case (os @ Some ob # rest) ! i of None \<Rightarrow> False | Some ob' \<Rightarrow> oname ob' = n)"
  proof (cases "os ! i")
    case None then show ?thesis using i by (simp add: nth_append)
  next
    case (Some ob')
    with i have "ob' \<in> set (live os)" by (rule nth_live)
    then have "oname ob' \<in> set (map oname (live os))" by simp
    with assms(2) have "oname ob' \<noteq> n" by metis
    then show ?thesis using i Some by (simp add: nth_append)
  qed
qed

lemma filter_upt_snoc:
  "filter (\<lambda>i. Q i ((xs @ [a]) ! i)) [0 ..< Suc (length xs)] =
     filter (\<lambda>i. Q i (xs ! i)) [0 ..< length xs] @ (if Q (length xs) a then [length xs] else [])"
proof -
  have "filter (\<lambda>i. Q i ((xs @ [a]) ! i)) [0 ..< length xs] =
        filter (\<lambda>i. Q i (xs ! i)) [0 ..< length xs]"
    by (rule filter_cong) (simp_all add: nth_append)
  then show ?thesis by simp
qed

lemma filter_upt_none:
  "(\<And>i. i < length xs \<Longrightarrow> \<not> Q i (xs ! i)) \<Longrightarrow> filter (\<lambda>i. Q i (xs ! i)) [0 ..< length xs] = []"
  by (simp add: filter_empty_conv)

lemma is_selected_deselect [simp]: "is_selected (deselect x) = False"
  by (cases x) (simp_all add: is_selected_def deselect_def)

lemma selected_indices_deselect [simp]: "selected_indices (map deselect os) = []"
  unfolding selected_indices_def
  using filter_upt_none[where Q="\<lambda>i x. is_selected x" and xs="map deselect os"] by simp

lemma selected_indices_snoc [simp]:
  "selected_indices (xs @ [x]) =
     selected_indices xs @ (if is_selected x then [length xs] else [])"
  unfolding selected_indices_def
  using filter_upt_snoc[where Q="\<lambda>i x. is_selected x" and xs=xs and a=x] by simp

lemma is_selected_Some [simp]: "is_selected (Some ob) = selected ob"
  by (simp add: is_selected_def)

section \<open>The Base Surface Loader\<close>

lemma select_all_False: "select_all False h = h\<lparr>objects := map deselect (objects h)\<rparr>"
  by (simp add: select_all_def deselect_def)

lemma object_names_deselect [simp]:
  "map oname (live (map deselect xs)) = map oname (live xs)"
  by (simp add: deselect_def)

lemma link_active_fields [simp]:
  "objects (link_active i h) = objects h"
  "active_object (link_active i h) = active_object h"
  "calls (link_active i h) = calls h"
  "addons (link_active i h) = addons h"
  "images (link_active i h) = images h"
  "files (link_active i h) = files h"
  "materials (link_active i h) = materials h"
  "stdout (link_active i h) = stdout h"
  "cursor (link_active i h) = cursor h"
  "scene_children (link_active i h) = scene_children h"
  "active_collection (link_active i h) = active_collection h"
  by (simp_all add: link_active_def scene_objects_link_def collection_objects_link_def
      upd_coll_def split: option.splits)

lemma load_us_map_missing:
  "files h p = None \<Longrightarrow> load_us_map D p h = (Inr (), missing p h)"
  by (cases "addon_name \<in> addons h") (simp_all add: load_us_map_def missing_def insert_absorb)



lemma nth_at_length [simp]: "length xs = n \<Longrightarrow> (xs @ x # ys) ! n = x"
  by auto

lemma upd_at_length [simp]: "length xs = n \<Longrightarrow> (xs @ x # ys)[n := y] = xs @ y # ys"
  by auto

lemma nth_after_length [simp]: "length xs = n \<Longrightarrow> (xs @ x # y # ys) ! Suc n = y"
  by (auto simp: nth_append)

lemma upd_after_length [simp]:
  "length xs = n \<Longrightarrow> (xs @ x # y # ys)[Suc n := z] = xs @ x # z # ys"
  by (auto simp: list_update_append)

lemma length_deselect [simp]: "length (map deselect xs) = length xs"
  by simp

lemma link_active_commute [simp]:
  "link_active i (objects_update fo h) = objects_update fo (link_active i h)"
  "link_active i (active_object_update fa h) = active_object_update fa (link_active i h)"
  "link_active i (calls_update fc h) = calls_update fc (link_active i h)"
  "link_active i (addons_update fd h) = addons_update fd (link_active i h)"
  "link_active i (images_update fi h) = images_update fi (link_active i h)"
  "link_active i (materials_update fm h) = materials_update fm (link_active i h)"
  "link_active i (stdout_update fs h) = stdout_update fs (link_active i h)"
  by (simp_all add: link_active_def context_collection_def get_coll_def scene_objects_link_def
      collection_objects_link_def upd_coll_def split: option.splits)

lemma add_by_operator_eq:
  "add_by_operator nm d loc h =
     (link_active (length (objects h)) h)
       \<lparr>objects := map deselect (objects h) @
          [Some \<lparr>oname = unique_name (object_names h) nm, odata = d, ocolor = (1, 1, 1, 1),
                 dimensions = None, location = loc, selected = True\<rparr>],
        active_object := Some (length (objects h))\<rparr>"
  by (simp add: add_by_operator_def Let_def select_all_False object_names_def)

lemma images_load_host:
  "snd (images_load p sz h) = h\<lparr>images := images (snd (images_load p sz h))\<rparr>"
  by (simp add: images_load_def Let_def split: option.splits)

lemma images_load_upd [simp]:
  "images (snd (images_load p sz (calls_update fc h))) = images (snd (images_load p sz h))"
  "images (snd (images_load p sz (addons_update fa h))) = images (snd (images_load p sz h))"
  "fst (images_load p sz (calls_update fc h)) = fst (images_load p sz h)"
  "fst (images_load p sz (addons_update fa h)) = fst (images_load p sz h)"
  by (simp_all add: images_load_def image_names_def Let_def split: option.splits)

lemma import_image_to_plane_eq:
  "files g p = Some sz \<Longrightarrow>
   import_image_to_plane p g =
     (link_active (length (objects g)) g)
       \<lparr>images := images (snd (images_load p sz g)),
        materials := (materials g)(display_name p \<mapsto>
          \<lparr>use_nodes = True, node_tree = Some image_tree\<rparr>),
        objects := map deselect (objects g) @
          [Some \<lparr>oname = unique_name (object_names g) (display_name p),
                 odata = Mesh \<lparr>shape = ImagePlane (fst (images_load p sz g)), extrusions = [],
                               geom_selected = True, mmaterials = [display_name p]\<rparr>,
                 ocolor = (1, 1, 1, 1), dimensions = None, location = cursor g,
                 selected = True\<rparr>],
        active_object := Some (length (objects g))\<rparr>"
proof -
  obtain n g' where l: "images_load p sz g = (n, g')" by (cases "images_load p sz g")
  define I where "I = images g'"
  have g': "g' = g\<lparr>images := I\<rparr>"
    using images_load_host[of p sz g] l by (simp add: I_def)
  have I: "images (g\<lparr>images := I\<rparr>) = I" by simp
  assume "files g p = Some sz"
  then show ?thesis
    by (simp add: import_image_to_plane_def l g' image_material_def Let_def
        add_by_operator_eq object_names_def)
qed





lemma load_us_map_fields:
  "addons (snd (load_us_map D p h)) = insert addon_name (addons h)"
  "calls (snd (load_us_map D p h)) = calls h @ [LoadUsMap]"
proof -
  define g where "g = h\<lparr>calls := calls h @ [LoadUsMap], addons := insert addon_name (addons h)\<rparr>"
  have "addons (snd (load_us_map D p h)) = insert addon_name (addons h) \<and>
        calls (snd (load_us_map D p h)) = calls h @ [LoadUsMap]"
  proof (cases "files h p")
    case None
    then show ?thesis by (simp add: load_us_map_missing missing_def)
  next
    case (Some sz)
    then have f: "files g p = Some sz" by (simp add: g_def)
    have so: "selected_objects (import_image_to_plane p g) = [length (objects h)]"
      using f by (simp add: import_image_to_plane_eq selected_objects_def) (simp add: g_def)
    have a: "addons (import_image_to_plane p g) = insert addon_name (addons h)"
      and c: "calls (import_image_to_plane p g) = calls h @ [LoadUsMap]"
      using f by (simp_all add: import_image_to_plane_eq) (simp_all add: g_def)
    have "load_us_map D p h =
      (let h = import_image_to_plane p g in
         case selected_objects h of
           [] \<Rightarrow> (Inl IndexError, h)
         | plane # _ \<Rightarrow>
             (case images_get h (path_name p) of
                None \<Rightarrow> (Inl KeyError, h)
              | Some img \<Rightarrow>
                  let width = fst (isize img);
                      len = snd (isize img)
                  in
                  if width = 0 then (Inl ZeroDivisionError, h)
                  else
                    (let length_ratio = fdiv (real len) (real width);
                         plane_width = D;
                         plane_length = fmul plane_width length_ratio;
                         h = upd_obj plane
                               (\<lambda>ob. ob\<lparr>dimensions := Some (plane_width, plane_length, 0)\<rparr>) h;
                         h = upd_obj plane (\<lambda>ob. ob\<lparr>location := (0, 0, 0)\<rparr>) h
                     in (Inr (), h))))"
      using Some
      by (cases "addon_name \<in> addons h") (simp_all add: load_us_map_def g_def insert_absorb)
    then show ?thesis
      by (simp add: Let_def so a c upd_obj_def split: option.splits)
  qed
  then show "addons (snd (load_us_map D p h)) = insert addon_name (addons h)"
    and "calls (snd (load_us_map D p h)) = calls h @ [LoadUsMap]" by simp_all
qed

lemma load_us_map_addons:
  "addons (snd (load_us_map D p h)) = insert addon_name (addons h)"
  by (rule load_us_map_fields)

lemma load_us_map_selection:
  assumes "files h p = Some sz"
  shows "selected_objects (snd (load_us_map D p h)) = [length (objects h)] \<and>
         active_object (snd (load_us_map D p h)) = Some (length (objects h))"
proof -
  define g where "g = h\<lparr>calls := calls h @ [LoadUsMap], addons := insert addon_name (addons h)\<rparr>"
  have f: "files g p = Some sz" using assms by (simp add: g_def)
  have so: "selected_objects (import_image_to_plane p g) = [length (objects h)]"
    using f by (simp add: import_image_to_plane_eq selected_objects_def) (simp add: g_def)
  have ob: "objects (import_image_to_plane p g) =
      map deselect (objects h) @
          [Some \<lparr>oname = unique_name (object_names g) (display_name p),
                 odata = Mesh \<lparr>shape = ImagePlane (fst (images_load p sz g)), extrusions = [],
                               geom_selected = True, mmaterials = [display_name p]\<rparr>,
                 ocolor = (1, 1, 1, 1), dimensions = None, location = cursor g,
                 selected = True\<rparr>]"
    and ac: "active_object (import_image_to_plane p g) = Some (length (objects h))"
    using f by (simp_all add: import_image_to_plane_eq) (simp_all add: g_def)
  have "load_us_map D p h =
      (let h = import_image_to_plane p g in
         case selected_objects h of
           [] \<Rightarrow> (Inl IndexError, h)
         | plane # _ \<Rightarrow>
             (case images_get h (path_name p) of
                None \<Rightarrow> (Inl KeyError, h)
              | Some img \<Rightarrow>
                  let width = fst (isize img);
                      len = snd (isize img)
                  in
                  if width = 0 then (Inl ZeroDivisionError, h)
                  else
                    (let length_ratio = fdiv (real len) (real width);
                         plane_width = D;
                         plane_length = fmul plane_width length_ratio;
                         h = upd_obj plane
                               (\<lambda>ob. ob\<lparr>dimensions := Some (plane_width, plane_length, 0)\<rparr>) h;
                         h = upd_obj plane (\<lambda>ob. ob\<lparr>location := (0, 0, 0)\<rparr>) h
                     in (Inr (), h))))"
    using assms
    by (cases "addon_name \<in> addons h") (simp_all add: load_us_map_def g_def insert_absorb)
  then show ?thesis
    by (simp add: Let_def so ob ac upd_obj_def get_obj_def selected_objects_def
        split: option.splits)
qed

text \<open>
  C9. The loader checks the image-import add-on and enables it if it is not enabled before
  it looks at the path, whatever the path is: after the call the add-on is enabled. So a
  call with a path that does not exist changes the set of enabled add-ons of a session
  that had none.
\<close>

theorem loader_enables_addon_first:
  "addons (snd (load_us_map D p h)) = insert addon_name (addons h) \<and>
   files empty_session image_path = None \<and>
   addons (snd (load_us_map 90 image_path empty_session)) \<noteq> addons empty_session"
  by (simp add: load_us_map_addons empty_session_def)




section \<open>The Marker Composer: what a call leaves behind\<close>

lemma unique_name_not_in: "set A \<subseteq> set U \<Longrightarrow> unique_name U b \<notin> set A"
  using unique_name_fresh[of U b] by auto

lemma unique_name_neq: "a \<in> set U \<Longrightarrow> unique_name U b \<noteq> a"
  using unique_name_fresh[of U b] by auto

lemma deselect_Some [simp]: "deselect (Some ob) = Some (ob\<lparr>selected := False\<rparr>)"
  by (simp add: deselect_def)

lemma deselect_idem [simp]: "map deselect (map deselect xs) = map deselect xs"
  by (induction xs) (simp_all add: deselect_def option.map_comp comp_def)

lemma convert_deselect [simp]:
  "map (map_option (\<lambda>ob. if selected ob then f ob else ob)) (map deselect xs) = map deselect xs"
  by (induction xs) (simp_all add: deselect_def option.map_comp comp_def)

lemma find_name_first:
  "nm = oname a \<Longrightarrow> nm \<notin> set (map oname (live os)) \<Longrightarrow>
   find_name (map deselect os @ Some a # rest) nm = Some (length os)"
  using find_name_at[of nm a "map deselect os" rest] by simp

lemma find_name_second:
  "nm = oname b \<Longrightarrow> nm \<notin> set (map oname (live os)) \<Longrightarrow> nm \<noteq> oname a \<Longrightarrow>
   find_name (map deselect os @ Some a # Some b # rest) nm = Some (Suc (length os))"
  using find_name_at[of nm b "map deselect os @ [Some a]" rest] by simp

lemma enters_edit_deselect [simp]:
  "i \<noteq> a \<Longrightarrow> enters_edit a ao i (deselect x) = False"
  by (cases x) (simp_all add: enters_edit_def deselect_def)

lemma edit_indices_two:
  "edit_indices (length os) ao (map deselect os @ [Some a, Some b]) =
   (if enters_edit (length os) ao (length os) (Some a) then [length os] else []) @
   (if enters_edit (length os) ao (Suc (length os)) (Some b) then [Suc (length os)] else [])"
proof -
  have 0: "filter (\<lambda>i. enters_edit (length os) ao i (map deselect os ! i))
             [0 ..< length (map deselect os)] = []"
    by (rule filter_upt_none[where Q="enters_edit (length os) ao"]) simp
  have 1: "filter (\<lambda>i. enters_edit (length os) ao i ((map deselect os @ [Some a]) ! i))
             [0 ..< Suc (length (map deselect os))] =
           (if enters_edit (length os) ao (length os) (Some a) then [length os] else [])"
    using filter_upt_snoc[where Q="enters_edit (length os) ao" and xs="map deselect os"
        and a="Some a"] 0
    by simp
  show ?thesis
    unfolding edit_indices_def
    using filter_upt_snoc[where Q="enters_edit (length os) ao"
        and xs="map deselect os @ [Some a]" and a="Some b"] 1
    by simp
qed

lemma live_update_cname:
  "c < length xs \<Longrightarrow> xs ! c = Some d \<Longrightarrow> cname d' = cname d \<Longrightarrow>
   map cname (live (xs[c := Some d'])) = map cname (live xs)"
proof (induction xs arbitrary: c rule: live.induct)
  case 1
  then show ?case by simp
next
  case (2 xs)
  then show ?case by (cases c) simp_all
next
  case (3 x xs)
  then show ?case by (cases c) simp_all
qed

lemma link_active_collections_length [simp]:
  "length (collections (link_active i h)) = length (collections h)"
  by (simp add: link_active_def scene_objects_link_def collection_objects_link_def upd_coll_def
      split: option.splits)

lemma link_active_collection_names [simp]:
  "map cname (live (collections (link_active i h))) = map cname (live (collections h))"
  by (auto simp: link_active_def context_collection_def scene_objects_link_def
      collection_objects_link_def upd_coll_def get_coll_def live_update_cname
      split: option.splits if_splits)

lemma staged_fields [simp]:
  "objects (staged h objs r ncs kids) = objs"
  "active_object (staged h objs r ncs kids) = Some (length (objects h))"
  "calls (staged h objs r ncs kids) = calls h @ [DrawObject]"
  "collections (staged h objs r ncs kids) =
     collections (link_active (length (objects h)) h) @ ncs"
  by (simp_all add: staged_def Let_def)

lemma staged_cylinder:
  "primitive_cylinder_add r d loc (h\<lparr>calls := calls h @ [DrawObject]\<rparr>) =
     staged h
       (map deselect (objects h) @
        [Some \<lparr>oname = unique_name (object_names h) ''Cylinder'',
               odata = Mesh \<lparr>shape = Cylinder r d, extrusions = [], geom_selected = True,
                             mmaterials = []\<rparr>,
               ocolor = (1, 1, 1, 1), dimensions = None, location = loc, selected = True\<rparr>])
       [] [] []"
  by (simp add: primitive_cylinder_add_def add_by_operator_eq staged_def Let_def object_names_def)

lemma staged_upd_obj:
  "upd_obj i f (staged h objs r ncs kids) =
     staged h (objs[i := map_option f (if i < length objs then objs ! i else None)]) r ncs kids"
  by (simp add: upd_obj_def get_obj_def staged_def Let_def)

lemma staged_new_text:
  "new_text baseid text (staged h objs r ncs kids) =
     (length objs,
      staged h
        (objs @
         [Some \<lparr>oname = unique_name (map oname (live objs)) (baseid @ ''_font''),
                odata = Font \<lparr>curve_name = baseid @ ''_curve'', body = text, fmaterials = []\<rparr>,
                ocolor = (1, 1, 1, 1), dimensions = None, location = (0, 0, 0),
                selected = False\<rparr>])
        (r @ [length objs]) ncs kids)"
  by (simp add: new_text_def Let_def scene_objects_link_def object_names_def staged_def)

lemma staged_select_all:
  "select_all v (staged h objs r ncs kids) =
     staged h (map (map_option (\<lambda>ob. ob\<lparr>selected := v\<rparr>)) objs) r ncs kids"
  by (simp add: select_all_def staged_def Let_def)

lemma staged_convert:
  "object_convert_MESH (staged h objs r ncs kids) =
     staged h
       (map (map_option (\<lambda>ob. if selected ob then ob\<lparr>odata := to_mesh (odata ob)\<rparr> else ob))
          objs) r ncs kids"
  by (simp add: object_convert_MESH_def staged_def Let_def)

lemma staged_collections_new:
  "collections_new nm (staged h objs r ncs kids) =
     (length (collections h) + length ncs,
      staged h objs r
        (ncs @ [Some \<lparr>cname = unique_name (collection_names h @ map cname (live ncs)) nm,
                      cobjects = [], cchildren = []\<rparr>]) kids)"
  by (simp add: collections_new_def collection_names_def staged_def Let_def)

lemma staged_children_link:
  "scene_children_link c (staged h objs r ncs kids) = staged h objs r ncs (kids @ [c])"
  by (simp add: scene_children_link_def staged_def Let_def)

lemma staged_objects_link:
  "collection_objects_link (length (collections h) + k) i (staged h objs r ncs kids) =
     staged h objs r
       (ncs[k := map_option (\<lambda>d. d\<lparr>cobjects := cobjects d @ [i]\<rparr>)
                  (if k < length ncs then ncs ! k else None)]) kids"
  by (simp add: collection_objects_link_def upd_coll_def get_coll_def staged_def Let_def
      list_update_append nth_append)

lemma drawn_staged:
  "drawn fmt x y z mat label texmat h =
     staged h
       (map deselect (objects h) @
        [Some (marker_object fmt x y z mat h), Some (label_object fmt x y z label texmat h)])
       [Suc (length (objects h))] [Some (group label h)] [length (collections h)]"
  by (simp add: drawn_def staged_def Let_def)

lemma fresh_image [simp]:
  "unique_name (map oname L) b \<notin> oname ` set L"
  "unique_name (map oname L @ xs) b \<notin> oname ` set L"
  using unique_name_fresh[of "map oname L" b] unique_name_fresh[of "map oname L @ xs" b]
  by auto

lemma fresh_last [simp]: "unique_name (U @ [a]) b \<noteq> a"
  using unique_name_fresh[of "U @ [a]" b] by auto

lemma deselect_comp [simp]:
  "deselect \<circ> deselect = deselect"
  "map_option (\<lambda>ob. if selected ob then f ob else ob) \<circ> deselect = deselect"
  "map_option (selected_update (\<lambda>_. False)) \<circ> deselect = deselect"
  by (auto simp: fun_eq_iff deselect_def option.map_comp comp_def split: option.splits)

lemma draw_object_eq:
  "draw_object fmt x y z mat label texmat h = (Inr (), drawn fmt x y z mat label texmat h)"
  by (simp add: draw_object_def Let_def drawn_staged staged_cylinder staged_upd_obj
      staged_new_text staged_select_all staged_convert staged_collections_new
      staged_children_link staged_objects_link[where k=0, simplified]
      rename_def select_set_def lookup_own_name_def objects_by_name_def get_obj_def
      find_name_first find_name_second unique_name_not_in unique_name_neq
      append_material_def to_mesh_def mode_set_EDIT_def edit_indices_two enters_edit_def
      is_mesh_def mesh_select_all_SELECT_def mesh_editing_def upd_editing_def upd_mesh_def
      mesh_extrude_region_move_def mode_set_OBJECT_def
      marker_object_def label_object_def group_def marker_name_def label_name_def
      format3_def object_names_def collection_names_def deselect_def[symmetric])

lemma drawn_objects:
  "objects (drawn fmt x y z mat label texmat h) =
     map deselect (objects h) @
       [Some (marker_object fmt x y z mat h), Some (label_object fmt x y z label texmat h)]"
  by (simp add: drawn_staged)

lemma drawn_calls: "calls (drawn fmt x y z mat label texmat h) = calls h @ [DrawObject]"
  by (simp add: drawn_staged)

lemma drawn_selected: "selected_objects (drawn fmt x y z mat label texmat h) = []"
  by (simp add: selected_objects_def drawn_objects marker_object_def label_object_def
      selected_indices_snoc[of "xs @ [a]" b for xs a b, simplified])

section \<open>Scene Reset\<close>

lemma collections_remove_objects:
  "objects (fold collections_remove cs h) = objects h \<and>
   active_object (fold collections_remove cs h) = active_object h"
  by (induction cs arbitrary: h) (simp_all add: collections_remove_def)

lemma selected_indices_dead: "selected_indices (map (\<lambda>_. None) xs) = []"
  unfolding selected_indices_def
  using filter_upt_none[where Q="\<lambda>i x. is_selected x" and xs="map (\<lambda>_. None) xs"]
  by (simp add: is_selected_def)

lemma delete_all:
  "map (\<lambda>x. if is_selected x then None else x)
     (map (map_option (\<lambda>ob. ob\<lparr>selected := True\<rparr>)) xs) = map (\<lambda>_. None) xs"
  by (induction xs) (auto simp: is_selected_def split: option.splits)

lemma is_selected_select [simp]:
  "is_selected (map_option (selected_update (\<lambda>_. True)) x) = (x \<noteq> None)"
  by (cases x) (simp_all add: is_selected_def)

lemma init_blender_env_objects:
  "objects (init_blender_env h) = map (\<lambda>_. None) (objects h)"
  by (simp add: init_blender_env_def Let_def collections_remove_objects object_delete_def
      select_all_def delete_all)

lemma init_blender_env_selected: "selected_objects (init_blender_env h) = []"
  by (simp add: selected_objects_def init_blender_env_objects selected_indices_dead)

section \<open>The Run Driver\<close>

lemma load_us_map_calls: "calls (snd (load_us_map D p h)) = calls h @ [LoadUsMap]"
  by (rule load_us_map_fields)

lemma loop_body_ok:
  "\<exists>h'. loop_body fmt e h = (Inr (), h') \<and> calls h' = calls h @ [NewShader, NewShader, DrawObject]"
  by (cases e)
     (auto simp: loop_body_def new_shader_emissive new_shader_diffuse draw_object_eq
       drawn_calls shaded_def)

lemma for_each_loop_body:
  "\<exists>h'. for_each (loop_body fmt) es h = (Inr (), h') \<and>
        calls h' = calls h @ concat (map (\<lambda>_. [NewShader, NewShader, DrawObject]) es)"
proof (induction es arbitrary: h)
  case Nil
  show ?case by simp
next
  case (Cons e es)
  obtain h1 where h1: "loop_body fmt e h = (Inr (), h1)"
    "calls h1 = calls h @ [NewShader, NewShader, DrawObject]"
    using loop_body_ok[of fmt e h] by auto
  obtain h2 where h2: "for_each (loop_body fmt) es h1 = (Inr (), h2)"
    "calls h2 = calls h1 @ concat (map (\<lambda>_. [NewShader, NewShader, DrawObject]) es)"
    using Cons.IH[of h1] by auto
  show ?case using h1 h2 by simp
qed

lemma run_driver_calls:
  "\<exists>cs. calls (snd (run_driver D p fmt h)) = calls h @ LoadUsMap # cs \<and>
        set cs \<subseteq> {NewShader, DrawObject}"
proof (cases "load_us_map D p h")
  case (Pair r h1)
  have c1: "calls h1 = calls h @ [LoadUsMap]"
    using load_us_map_calls[of D p h] Pair by simp
  show ?thesis
  proof (cases r)
    case (Inl e)
    with Pair c1 show ?thesis by (simp add: run_driver_def)
  next
    case (Inr u)
    obtain h2 where h2: "for_each (loop_body fmt) states_dict h1 = (Inr (), h2)"
      "calls h2 = calls h1 @ concat (map (\<lambda>_. [NewShader, NewShader, DrawObject]) states_dict)"
      using for_each_loop_body[of fmt states_dict h1] by auto
    have "set (concat (map (\<lambda>_. [NewShader, NewShader, DrawObject]) states_dict))
            \<subseteq> {NewShader, DrawObject}"
      by auto
    with Pair Inr c1 h2 show ?thesis by (simp add: run_driver_def)
  qed
qed



lemma link_active_root:
  "context_collection h = None \<Longrightarrow> link_active i h = h\<lparr>scene_objects := scene_objects h @ [i]\<rparr>"
  by (simp add: link_active_def scene_objects_link_def)

lemma link_active_collection:
  assumes "context_collection h = Some a"
  shows "\<exists>d. a < length (collections h) \<and> collections h ! a = Some d \<and>
           link_active i h =
             h\<lparr>collections := (collections h)[a := Some (d\<lparr>cobjects := cobjects d @ [i]\<rparr>)]\<rparr>"
  using assms
  by (auto simp: link_active_def context_collection_def collection_objects_link_def
      upd_coll_def get_coll_def split: option.splits if_splits)


section \<open>The claims\<close>

text \<open>
  C1: what the code does where the claim has Scene Reset run before the Base Surface
  Loader. The driver enters the loader first; every call of the Shader-Graph Factory and
  of the Marker Composer comes after it, and these are all the calls a run makes: Scene
  Reset is defined, but the driver does not call it. So in the run that starts from the
  empty session the first function entered is the loader, and Scene Reset is entered at
  no time.
\<close>

theorem driver_call_order:
  "(\<exists>cs. calls (snd (main fmt h)) = calls h @ LoadUsMap # cs \<and>
         set cs \<subseteq> {NewShader, DrawObject}) \<and>
   hd (calls (snd (main py_str empty_session))) = LoadUsMap \<and>
   InitBlenderEnv \<notin> set (calls (snd (main py_str empty_session)))"
proof -
  obtain cs where "calls (snd (run_driver 90 image_path py_str empty_session)) =
      calls empty_session @ LoadUsMap # cs" and "set cs \<subseteq> {NewShader, DrawObject}"
    using run_driver_calls[of 90 image_path py_str empty_session] by blast
  then have "hd (calls (snd (main py_str empty_session))) = LoadUsMap \<and>
      InitBlenderEnv \<notin> set (calls (snd (main py_str empty_session)))"
    by (auto simp: main_def empty_session_def)
  moreover have "\<exists>cs. calls (snd (main fmt h)) = calls h @ LoadUsMap # cs \<and>
         set cs \<subseteq> {NewShader, DrawObject}"
    unfolding main_def by (rule run_driver_calls)
  ultimately show ?thesis by simp
qed

text \<open>
  C3: what the code does where the claim says that the extrusion acts on the label and on
  no other object. \<open>new_text\<close> neither selects nor activates the text object, so the
  cylinder added before is still the active object and still selected when the text is
  converted and edit mode is entered. Edit mode takes the cylinder and the converted
  label together, and the extrusion by \<open>(0, 0, 0.3)\<close> is applied to both: after the
  call the marker carries the extrusion as well as the label.
\<close>

theorem extrusion_reaches_marker:
  "snd (draw_object fmt x y z mat label texmat h) = drawn fmt x y z mat label texmat h \<and>
   objects (drawn fmt x y z mat label texmat h) =
     map deselect (objects h) @
       [Some (marker_object fmt x y z mat h), Some (label_object fmt x y z label texmat h)] \<and>
   odata (marker_object fmt x y z mat h) =
     Mesh \<lparr>shape = Cylinder 0.5 0.5, extrusions = [(0, 0, 0.3)], geom_selected = True,
           mmaterials = [mat]\<rparr> \<and>
   odata (label_object fmt x y z label texmat h) =
     Mesh \<lparr>shape = Glyphs label, extrusions = [(0, 0, 0.3)], geom_selected = True,
           mmaterials = [texmat]\<rparr>"
  by (simp add: draw_object_eq drawn_objects marker_object_def label_object_def)

text \<open>
  C4, as the code has it. Scene Reset and the Marker Composer return with no object
  selected. The Base Surface Loader leaves the selection as it found it when the image
  is missing; when it imports an image it returns with the new plane selected and
  active.
\<close>

theorem selection_on_return:
  "selected_objects (init_blender_env h) = [] \<and>
   selected_objects (snd (draw_object fmt x y z mat label texmat h)) = [] \<and>
   (files h p = None \<longrightarrow> selected_objects (snd (load_us_map D p h)) = selected_objects h) \<and>
   (files h p = Some (W, H) \<and> 0 < W \<longrightarrow>
      selected_objects (snd (load_us_map D p h)) = [length (objects h)] \<and>
      active_object (snd (load_us_map D p h)) = Some (length (objects h)))"
proof -
  have "selected_objects (missing p h) = selected_objects h"
    by (simp add: missing_def selected_objects_def)
  then show ?thesis
    using load_us_map_selection[of h p "(W, H)" D]
    by (simp add: init_blender_env_selected draw_object_eq drawn_selected load_us_map_missing)
qed

theorem selection_on_return_witness:
  "selected_objects (init_blender_env session_with_map) = [] \<and>
   selected_objects (snd (draw_object py_str 14 (-1) 0 ''m'' ''AL'' ''t'' session_with_map)) = [] \<and>
   selected_objects (snd (load_us_map 90 image_path empty_session)) = [] \<and>
   selected_objects (snd (load_us_map 90 image_path session_with_map)) = [0] \<and>
   active_object (snd (load_us_map 90 image_path session_with_map)) = Some 0"
  using selection_on_return[of session_with_map py_str 14 "-1" 0 "''m''" "''AL''" "''t''"
      image_path 90 2000 1000]
    selection_on_return[of empty_session py_str 14 "-1" 0 "''m''" "''AL''" "''t''"
      image_path 90 2000 1000]
  by (simp add: session_with_map_def empty_session_def selected_objects_def
      selected_indices_def)

text \<open>
  C4 as stated fails for the Base Surface Loader: after it has imported the image of the
  session, the plane is selected and active.
\<close>

theorem loader_leaves_selection_counterexample:
  "selected_objects (snd (load_us_map 90 image_path session_with_map)) = [0] \<and>
   active_object (snd (load_us_map 90 image_path session_with_map)) = Some 0"
  using load_us_map_selection[of session_with_map image_path "(2000, 1000)" 90]
  by (simp add: session_with_map_def empty_session_def)



text \<open>
  C8. When no collection is named \<open>label + "_led"\<close> yet, one call of the Marker Composer
  returns normally and adds exactly one collection to the store; it carries that name,
  it is linked under the root collection, and its objects are exactly the two objects
  made in the call: the cylinder marker and the extruded label.
\<close>

theorem one_group_of_two:
  assumes "label @ ''_led'' \<notin> set (collection_names h)"
  shows "\<exists>h'. draw_object fmt x y z mat label texmat h = (Inr (), h')
           \<and> length (collections h') = Suc (length (collections h))
           \<and> collection_names h' = collection_names h @ [label @ ''_led'']
           \<and> get_coll h' (length (collections h)) =
               Some \<lparr>cname = label @ ''_led'',
                     cobjects = [length (objects h), Suc (length (objects h))],
                     cchildren = []\<rparr>
           \<and> scene_children h' = scene_children h @ [length (collections h)]
           \<and> length (objects h') = length (objects h) + 2
           \<and> get_obj h' (length (objects h)) = Some (marker_object fmt x y z mat h)
           \<and> get_obj h' (Suc (length (objects h))) =
               Some (label_object fmt x y z label texmat h)"
  using assms
  by (simp add: draw_object_eq drawn_def Let_def get_coll_def get_obj_def group_def
      collection_names_def unique_name_verbatim)

theorem one_group_of_two_witness:
  "\<exists>h'. draw_object py_str 14 (-1) 0 ''LEDShader_255_255_255'' ''AL'' ''TextShader_0_0_0''
          startup_session = (Inr (), h')
       \<and> length (collections h') = 2
       \<and> collection_names h' = [''Collection'', ''AL_led'']
       \<and> get_coll h' 1 = Some \<lparr>cname = ''AL_led'', cobjects = [0, 1], cchildren = []\<rparr>
       \<and> scene_children h' = [0, 1]
       \<and> length (objects h') = 2"
  using one_group_of_two[of "''AL''" startup_session py_str 14 "-1" 0
      "''LEDShader_255_255_255''" "''TextShader_0_0_0''"]
  by (auto simp: startup_session_def empty_session_def collection_names_def)

text \<open>
  C10, as the code has it. After a call of the Marker Composer the label is linked to the
  root collection, the marker to the collection that was active when the call began (the
  root collection when no other is active), and both are linked to the new group as
  well: linking into the group unlinks nothing.
\<close>

theorem objects_in_two_containers:
  "\<exists>h' g. draw_object fmt x y z mat label texmat h = (Inr (), h')
      \<and> get_obj h' (length (objects h)) = Some (marker_object fmt x y z mat h)
      \<and> get_obj h' (Suc (length (objects h))) = Some (label_object fmt x y z label texmat h)
      \<and> Suc (length (objects h)) \<in> set (scene_objects h')
      \<and> (case context_collection h of
            None \<Rightarrow> length (objects h) \<in> set (scene_objects h')
          | Some a \<Rightarrow>
              a < length (collections h) \<and>
              (\<exists>d. get_coll h' a = Some d \<and> length (objects h) \<in> set (cobjects d)))
      \<and> get_coll h' (length (collections h)) = Some g
      \<and> cobjects g = [length (objects h), Suc (length (objects h))]"
proof (cases "context_collection h")
  case None
  then show ?thesis
    by (simp add: draw_object_eq drawn_def Let_def link_active_root get_coll_def get_obj_def
        group_def)
next
  case (Some a)
  obtain d where d: "a < length (collections h)" "collections h ! a = Some d"
    "link_active (length (objects h)) h =
       h\<lparr>collections := (collections h)
            [a := Some (d\<lparr>cobjects := cobjects d @ [length (objects h)]\<rparr>)]\<rparr>"
    using link_active_collection[OF Some, of "length (objects h)"] by blast
  show ?thesis
    using Some d(1,2)
    by (simp add: draw_object_eq drawn_def Let_def d(3) get_coll_def get_obj_def group_def
        nth_append)
qed

text \<open>
  C10 as stated fails: in the session as the host starts it up, where the collection
  \<^verbatim>\<open>Collection\<close> is active, the marker (object 0) is not linked to the root
  collection after the call; the root collection holds the label (object 1) only.
\<close>

theorem marker_not_in_root_counterexample:
  "scene_objects (snd (draw_object py_str 14 (-1) 0 ''LEDShader_255_255_255'' ''AL''
      ''TextShader_0_0_0'' startup_session)) = [1]"
proof -
  have c: "context_collection startup_session = Some 0"
    by (simp add: context_collection_def startup_session_def empty_session_def get_coll_def)
  obtain d where "link_active (length (objects startup_session)) startup_session =
       startup_session\<lparr>collections := (collections startup_session)
            [0 := Some (d\<lparr>cobjects := cobjects d @ [length (objects startup_session)]\<rparr>)]\<rparr>"
    using link_active_collection[OF c, of "length (objects startup_session)"] by blast
  then show ?thesis
    by (simp add: draw_object_eq drawn_def Let_def startup_session_def empty_session_def)
qed


end
